theory Spec2Isabelle
  imports Main "HOL-Library.Sublist"
begin

section \<open>Python values and the runtime outside the repository\<close>

text \<open>
  A decoded JSON document, as \<^verbatim>\<open>resp.json()\<close> returns it: \<^verbatim>\<open>None\<close>, a bool, an
  unbounded int, a float, a str, a list or a dict. A dict keeps the order of its keys, and
  its iteration order is what the formatters print, so it is an association list in that
  order (the keys of a Python dict are distinct; \<open>map_of\<close> reads the first entry of a key).
  The payload of a float is left open as the type parameter \<open>'f\<close>: nothing in the two
  modules computes with one.
\<close>

datatype 'f json =
    JNull
  | JBool bool
  | JInt int
  | JFloat 'f
  | JStr string
  | JArr "'f json list"
  | JObj "(string \<times> 'f json) list"

text \<open>
  The exceptions that leave the two modules. Neither module has a \<^verbatim>\<open>try\<close>, so each is
  the result of the call that raised it. \<open>HTTPError\<close> is what
  \<^verbatim>\<open>resp.raise_for_status()\<close> raises and carries the response (status, body);
  \<open>JSONDecodeError\<close> is what \<^verbatim>\<open>resp.json()\<close> raises for a body that is not JSON and
  carries the document it could not decode; \<open>ValueError\<close> is what it lets through for
  an integer beyond the interpreter's digit limit. \<open>ConnectionError\<close>, \<open>Timeout\<close>,
  \<open>TooManyRedirects\<close> and \<open>MissingSchema\<close> are raised by the session call when it
  returns no response; \<open>OtherException\<close> is any other exception of the library or the
  decoder, by the name of its class. \<open>AttributeError\<close> is Python's own, for \<^verbatim>\<open>.get\<close> or
  \<^verbatim>\<open>.items\<close> on a value that is not a dict.
\<close>

datatype error =
    HTTPError nat string
  | JSONDecodeError string
  | ConnectionError
  | Timeout
  | TooManyRedirects
  | MissingSchema
  | ValueError
  | OtherException string
  | AttributeError

definition bindE :: "error + 'a \<Rightarrow> ('a \<Rightarrow> error + 'b) \<Rightarrow> error + 'b" where
  "bindE m f = (case m of Inl e \<Rightarrow> Inl e | Inr x \<Rightarrow> f x)"

fun mapE :: "('a \<Rightarrow> error + 'b) \<Rightarrow> 'a list \<Rightarrow> error + 'b list" where
  "mapE f [] = Inr []"
| "mapE f (x # xs) = bindE (f x) (\<lambda>y. bindE (mapE f xs) (\<lambda>ys. Inr (y # ys)))"

subsection \<open>dict.get, dict.items, str.join, str.rstrip, str()\<close>

definition dict_get :: "(string \<times> 'v) list \<Rightarrow> string \<Rightarrow> 'v \<Rightarrow> 'v" where
  "dict_get d k dflt = (case map_of d k of None \<Rightarrow> dflt | Some v \<Rightarrow> v)"

text \<open>\<^verbatim>\<open>x.get(k, dflt)\<close> on any decoded value: only a dict has the method.\<close>

fun py_get :: "'f json \<Rightarrow> string \<Rightarrow> 'f json \<Rightarrow> error + 'f json" where
  "py_get (JObj d) k dflt = Inr (dict_get d k dflt)"
| "py_get _ k dflt = Inl AttributeError"

fun py_items :: "'f json \<Rightarrow> error + (string \<times> 'f json) list" where
  "py_items (JObj d) = Inr d"
| "py_items _ = Inl AttributeError"

fun py_join :: "string \<Rightarrow> string list \<Rightarrow> string" where
  "py_join sep [] = []"
| "py_join sep [x] = x"
| "py_join sep (x # y # ys) = x @ sep @ py_join sep (y # ys)"

definition py_rstrip :: "string \<Rightarrow> string \<Rightarrow> string" where
  "py_rstrip s chars = rev (dropWhile (\<lambda>c. c \<in> set chars) (rev s))"

definition digit_char :: "nat \<Rightarrow> char" where
  "digit_char d = ''0123456789'' ! d"

fun nat_digits :: "nat \<Rightarrow> string" where
  "nat_digits n =
     (if n < 10 then [digit_char n] else nat_digits (n div 10) @ [digit_char (n mod 10)])"

declare nat_digits.simps [simp del]

definition int_str :: "int \<Rightarrow> string" where
  "int_str i = (if i < 0 then CHR ''-'' # nat_digits (nat (- i)) else nat_digits (nat i))"

text \<open>
  What a replacement field \<^verbatim>\<open>{x}\<close> of an f-string prints: \<^verbatim>\<open>str(x)\<close>. A str prints as
  itself, an int in decimal, \<^verbatim>\<open>None\<close>, \<^verbatim>\<open>True\<close> and \<^verbatim>\<open>False\<close> by name. A float, a list
  and a dict print by Python's \<^verbatim>\<open>repr\<close>, which belongs to the interpreter and is the
  parameter \<open>repr\<close>.
\<close>

fun py_str :: "('f json \<Rightarrow> string) \<Rightarrow> 'f json \<Rightarrow> string" where
  "py_str repr (JStr s) = s"
| "py_str repr (JInt i) = int_str i"
| "py_str repr JNull = ''None''"
| "py_str repr (JBool b) = (if b then ''True'' else ''False'')"
| "py_str repr v = repr v"

subsection \<open>The requests library: sessions, requests and responses\<close>

datatype http_method = GET | POST

text \<open>
  One call of \<^verbatim>\<open>session.get(url, timeout=t)\<close> or \<^verbatim>\<open>session.post(url, json=d, timeout=t)\<close>:
  the method, the URL, the \<^verbatim>\<open>json=\<close> body (\<open>None\<close> for a GET, which passes none), the
  timeout and the session object the call went through, named by its address.
\<close>

record 'f request =
  req_method :: http_method
  req_url :: string
  req_json :: "'f json option"
  req_timeout :: nat
  req_session :: nat

text \<open>
  What such a call gives back to the code. Either it raises and no response is returned:
  a timeout, a refused connection, a name that does not resolve, more redirects than the
  library follows, a URL without a scheme (which the library refuses before anything
  goes on the wire), or any other exception of the library, named by its class. Or it
  returns a response, with its status code and body. The modules call with redirects on,
  so this response is the last one of the exchange: the library itself follows a 301,
  302, 303, 307 or 308 that has a \<^verbatim>\<open>Location\<close>, and the code sees only the response
  at the end. What goes on the wire for a call, no message, one or several, is the
  library's matter and is not modelled.
\<close>

datatype call_failure =
    TimedOut
  | ConnectionRefused
  | DNSFailure
  | RedirectLimit
  | NoScheme
  | OtherFailure string

datatype outcome = Failed call_failure | Response nat string

text \<open>
  What \<^verbatim>\<open>resp.json()\<close> does with a body: it returns the decoded value; or the body is
  not JSON; or the body holds an integer with more digits than the interpreter converts;
  or the decoder raises something else, named by its class.
\<close>

datatype 'f decoding = Decoded "'f json" | NotJSON | IntTooLong | DecoderFailed string

text \<open>
  The process state the modules act on: the requests handed to the sessions so far, one
  for each call of \<^verbatim>\<open>session.get\<close> or \<^verbatim>\<open>session.post\<close>, oldest first, and the
  address the next \<^verbatim>\<open>requests.Session()\<close> gets.
\<close>

record 'f world =
  sent :: "'f request list"
  next_session :: nat

text \<open>
  What lies outside the repository: the requests library with the network and the remote
  service behind it (what a call gives back, given the calls before it), the JSON
  decoder of \<^verbatim>\<open>resp.json()\<close> and \<^verbatim>\<open>repr\<close>.
\<close>

record 'f runtime =
  rt_session :: "'f request list \<Rightarrow> 'f request \<Rightarrow> outcome"
  rt_json :: "string \<Rightarrow> 'f decoding"
  rt_repr :: "'f json \<Rightarrow> string"

definition requests_Session :: "'f world \<Rightarrow> nat \<times> 'f world" where
  "requests_Session w = (next_session w, w\<lparr>next_session := Suc (next_session w)\<rparr>)"

text \<open>
  \<^verbatim>\<open>Session.request\<close>, which \<^verbatim>\<open>get\<close> and \<^verbatim>\<open>post\<close> both call: the request is handed to
  the library, and the call gives back what the library makes of it.
\<close>

definition session_request ::
  "'f runtime \<Rightarrow> 'f request \<Rightarrow> 'f world \<Rightarrow> outcome \<times> 'f world" where
  "session_request rt req w = (rt_session rt (sent w) req, w\<lparr>sent := sent w @ [req]\<rparr>)"

definition session_get ::
  "'f runtime \<Rightarrow> nat \<Rightarrow> string \<Rightarrow> nat \<Rightarrow> 'f world \<Rightarrow> outcome \<times> 'f world" where
  "session_get rt s url t w =
     session_request rt \<lparr>req_method = GET, req_url = url, req_json = None,
                         req_timeout = t, req_session = s\<rparr> w"

definition session_post ::
  "'f runtime \<Rightarrow> nat \<Rightarrow> string \<Rightarrow> 'f json \<Rightarrow> nat \<Rightarrow> 'f world \<Rightarrow> outcome \<times> 'f world" where
  "session_post rt s url d t w =
     session_request rt \<lparr>req_method = POST, req_url = url, req_json = Some d,
                         req_timeout = t, req_session = s\<rparr> w"

text \<open>The exception of requests for each way a call fails.\<close>

fun call_error :: "call_failure \<Rightarrow> error" where
  "call_error TimedOut = Timeout"
| "call_error ConnectionRefused = ConnectionError"
| "call_error DNSFailure = ConnectionError"
| "call_error RedirectLimit = TooManyRedirects"
| "call_error NoScheme = MissingSchema"
| "call_error (OtherFailure cls) = OtherException cls"

text \<open>
  \<^verbatim>\<open>Response.raise_for_status()\<close> of requests raises for the client and server error
  codes, 400 to 599, and for no other status.
\<close>

definition raise_for_status :: "nat \<Rightarrow> string \<Rightarrow> error + unit" where
  "raise_for_status st body =
     (if 400 \<le> st \<and> st < 600 then Inl (HTTPError st body) else Inr ())"

text \<open>
  \<^verbatim>\<open>Response.json()\<close> of requests turns the decoder's \<^verbatim>\<open>JSONDecodeError\<close> into its own,
  which carries the document; anything else the decoder raises passes through, the
  \<^verbatim>\<open>ValueError\<close> of an over-long integer among it.
\<close>

definition response_json :: "'f runtime \<Rightarrow> string \<Rightarrow> error + 'f json" where
  "response_json rt body =
     (case rt_json rt body of
        Decoded v \<Rightarrow> Inr v
      | NotJSON \<Rightarrow> Inl (JSONDecodeError body)
      | IntTooLong \<Rightarrow> Inl ValueError
      | DecoderFailed cls \<Rightarrow> Inl (OtherException cls))"

section \<open>tools/crewai.py\<close>

definition crewai_DEFAULT_BASE_URL :: string where
  "crewai_DEFAULT_BASE_URL = ''http://localhost:3000''"

text \<open>The module: its one global, \<^verbatim>\<open>_session\<close>, made when the module is imported.\<close>

record crewai_module =
  cm_session :: nat

definition crewai_import :: "'f world \<Rightarrow> crewai_module \<times> 'f world" where
  "crewai_import w = (case requests_Session w of (s, w') \<Rightarrow> (\<lparr>cm_session = s\<rparr>, w'))"

text \<open>One item of the generator in \<^verbatim>\<open>_call\<close>: \<^verbatim>\<open>[{ref}] {semantic}: {text}\<close>.\<close>

definition crewai_ref_line :: "('f json \<Rightarrow> string) \<Rightarrow> string \<times> 'f json \<Rightarrow> error + string" where
  "crewai_ref_line repr item =
     (case item of (ref, el) \<Rightarrow>
        bindE (py_get el ''semantic'' (JStr ''?'')) (\<lambda>semantic.
        bindE (py_get el ''text'' (JStr ''(no text)'')) (\<lambda>text.
        Inr (''['' @ ref @ ''] '' @ py_str repr semantic @ '': '' @ py_str repr text))))"

text \<open>Lines 45 to 53 of \<^verbatim>\<open>_call\<close>: from the decoded response to the returned text.\<close>

definition crewai_format :: "('f json \<Rightarrow> string) \<Rightarrow> 'f json \<Rightarrow> error + string" where
  "crewai_format repr result =
     bindE (py_get result ''view'' (JStr '''')) (\<lambda>view.
     bindE (py_get result ''elements'' (JObj [])) (\<lambda>elements.
     bindE (py_get result ''meta'' (JObj [])) (\<lambda>meta.
     bindE (py_items elements) (\<lambda>items.
     bindE (mapE (crewai_ref_line repr) items) (\<lambda>lines.
     bindE (py_get meta ''url'' (JStr ''unknown'')) (\<lambda>url.
     bindE (py_get meta ''title'' (JStr ''unknown'')) (\<lambda>title.
     Inr (''URL: '' @ py_str repr url @ ''\<newline>Title: '' @ py_str repr title
          @ ''\<newline>\<newline>'' @ py_str repr view
          @ ''\<newline>\<newline>Interactive elements:\<newline>''
          @ py_join ''\<newline>'' lines))))))))"

text \<open>\<^verbatim>\<open>data or {}\<close>: \<^verbatim>\<open>None\<close> and the empty dict are falsy.\<close>

definition or_empty :: "(string \<times> 'f json) list option \<Rightarrow> (string \<times> 'f json) list" where
  "or_empty data = (case data of None \<Rightarrow> [] | Some d \<Rightarrow> if d = [] then [] else d)"

text \<open>
  Lines 42 to 53 of \<^verbatim>\<open>_call\<close>, after the request: a failure of the session call has
  already left the function; otherwise \<^verbatim>\<open>raise_for_status\<close>, \<^verbatim>\<open>json\<close> and the text.
\<close>

definition crewai_respond :: "'f runtime \<Rightarrow> outcome \<Rightarrow> error + string" where
  "crewai_respond rt out =
     (case out of
        Failed f \<Rightarrow> Inl (call_error f)
      | Response st body \<Rightarrow>
          bindE (raise_for_status st body) (\<lambda>_.
          bindE (response_json rt body) (\<lambda>result.
          crewai_format (rt_repr rt) result)))"

definition crewai_call ::
  "'f runtime \<Rightarrow> crewai_module \<Rightarrow> string \<Rightarrow> (string \<times> 'f json) list option \<Rightarrow> string
     \<Rightarrow> string \<Rightarrow> 'f world \<Rightarrow> (error + string) \<times> 'f world" where
  "crewai_call rt m endpoint data method base_url w =
     (let url = py_rstrip base_url ''/'' @ endpoint in
      case (if method = ''GET'' then session_get rt (cm_session m) url 30 w
            else session_post rt (cm_session m) url (JObj (or_empty data)) 30 w) of
        (out, w') \<Rightarrow> (crewai_respond rt out, w'))"

text \<open>
  The \<^verbatim>\<open>_run\<close> methods of the six tool classes. None reads \<^verbatim>\<open>self\<close>, and none passes
  \<^verbatim>\<open>base_url\<close>, so \<^verbatim>\<open>_call\<close> takes its default.
\<close>

definition TextWebBrowseTool_run ::
  "'f runtime \<Rightarrow> crewai_module \<Rightarrow> string \<Rightarrow> 'f world \<Rightarrow> (error + string) \<times> 'f world" where
  "TextWebBrowseTool_run rt m url w =
     crewai_call rt m ''/navigate'' (Some [(''url'', JStr url)]) ''POST'' crewai_DEFAULT_BASE_URL w"

definition TextWebClickTool_run ::
  "'f runtime \<Rightarrow> crewai_module \<Rightarrow> int \<Rightarrow> 'f world \<Rightarrow> (error + string) \<times> 'f world" where
  "TextWebClickTool_run rt m ref w =
     crewai_call rt m ''/click'' (Some [(''ref'', JInt ref)]) ''POST'' crewai_DEFAULT_BASE_URL w"

definition TextWebTypeTool_run ::
  "'f runtime \<Rightarrow> crewai_module \<Rightarrow> int \<Rightarrow> string \<Rightarrow> 'f world \<Rightarrow> (error + string) \<times> 'f world" where
  "TextWebTypeTool_run rt m ref text w =
     crewai_call rt m ''/type'' (Some [(''ref'', JInt ref), (''text'', JStr text)]) ''POST''
       crewai_DEFAULT_BASE_URL w"

definition TextWebSelectTool_run ::
  "'f runtime \<Rightarrow> crewai_module \<Rightarrow> int \<Rightarrow> string \<Rightarrow> 'f world \<Rightarrow> (error + string) \<times> 'f world" where
  "TextWebSelectTool_run rt m ref val w =
     crewai_call rt m ''/select'' (Some [(''ref'', JInt ref), (''value'', JStr val)]) ''POST''
       crewai_DEFAULT_BASE_URL w"

definition TextWebScrollTool_run ::
  "'f runtime \<Rightarrow> crewai_module \<Rightarrow> string \<Rightarrow> 'f world \<Rightarrow> (error + string) \<times> 'f world" where
  "TextWebScrollTool_run rt m direction w =
     crewai_call rt m ''/scroll'' (Some [(''direction'', JStr direction)]) ''POST''
       crewai_DEFAULT_BASE_URL w"

definition TextWebSnapshotTool_run ::
  "'f runtime \<Rightarrow> crewai_module \<Rightarrow> 'f world \<Rightarrow> (error + string) \<times> 'f world" where
  "TextWebSnapshotTool_run rt m w =
     crewai_call rt m ''/snapshot'' None ''GET'' crewai_DEFAULT_BASE_URL w"

text \<open>
  An invocation of one of the six tools with the arguments of its schema
  (\<^verbatim>\<open>NavigateSchema\<close>, \<^verbatim>\<open>ClickSchema\<close>, \<^verbatim>\<open>TypeSchema\<close>, \<^verbatim>\<open>SelectSchema\<close>,
  \<^verbatim>\<open>ScrollSchema\<close>; the snapshot tool has none).
\<close>

datatype crewai_invocation =
    CNavigate string
  | CClick int
  | CType int string
  | CSelect int string
  | CScroll string
  | CSnapshot

fun crewai_invoke ::
  "'f runtime \<Rightarrow> crewai_module \<Rightarrow> crewai_invocation \<Rightarrow> 'f world \<Rightarrow> (error + string) \<times> 'f world" where
  "crewai_invoke rt m (CNavigate url) w = TextWebBrowseTool_run rt m url w"
| "crewai_invoke rt m (CClick ref) w = TextWebClickTool_run rt m ref w"
| "crewai_invoke rt m (CType ref text) w = TextWebTypeTool_run rt m ref text w"
| "crewai_invoke rt m (CSelect ref val) w = TextWebSelectTool_run rt m ref val w"
| "crewai_invoke rt m (CScroll direction) w = TextWebScrollTool_run rt m direction w"
| "crewai_invoke rt m CSnapshot w = TextWebSnapshotTool_run rt m w"

section \<open>tools/langchain.py\<close>

definition langchain_DEFAULT_BASE_URL :: string where
  "langchain_DEFAULT_BASE_URL = ''http://localhost:3000''"

text \<open>A \<^verbatim>\<open>TextWebClient\<close> object: its two attributes, the session by its address.\<close>

record TextWebClient =
  base_url :: string
  session :: nat

text \<open>
  \<^verbatim>\<open>__init__(self, base_url=DEFAULT_BASE_URL)\<close>: the argument is \<open>None\<close> when the caller
  leaves it out.
\<close>

definition TextWebClient_init :: "string option \<Rightarrow> 'f world \<Rightarrow> TextWebClient \<times> 'f world" where
  "TextWebClient_init arg w =
     (let b = (case arg of None \<Rightarrow> langchain_DEFAULT_BASE_URL | Some u \<Rightarrow> u) in
      case requests_Session w of
        (s, w') \<Rightarrow> (\<lparr>base_url = py_rstrip b ''/'', session = s\<rparr>, w'))"

text \<open>
  The two lines \<^verbatim>\<open>_post\<close> and \<^verbatim>\<open>_get\<close> share after the request:
  \<^verbatim>\<open>resp.raise_for_status()\<close> and \<^verbatim>\<open>return resp.json()\<close>.
\<close>

definition checked_json :: "'f runtime \<Rightarrow> outcome \<Rightarrow> error + 'f json" where
  "checked_json rt out =
     (case out of
        Failed f \<Rightarrow> Inl (call_error f)
      | Response st body \<Rightarrow> bindE (raise_for_status st body) (\<lambda>_. response_json rt body))"

definition TextWebClient_post ::
  "'f runtime \<Rightarrow> TextWebClient \<Rightarrow> string \<Rightarrow> (string \<times> 'f json) list \<Rightarrow> 'f world
     \<Rightarrow> (error + 'f json) \<times> 'f world" where
  "TextWebClient_post rt self endpoint data w =
     (case session_post rt (session self) (base_url self @ endpoint) (JObj data) 30 w of
        (out, w') \<Rightarrow> (checked_json rt out, w'))"

definition TextWebClient_get ::
  "'f runtime \<Rightarrow> TextWebClient \<Rightarrow> string \<Rightarrow> 'f world \<Rightarrow> (error + 'f json) \<times> 'f world" where
  "TextWebClient_get rt self endpoint w =
     (case session_get rt (session self) (base_url self @ endpoint) 30 w of
        (out, w') \<Rightarrow> (checked_json rt out, w'))"

definition langchain_ref_line :: "('f json \<Rightarrow> string) \<Rightarrow> string \<times> 'f json \<Rightarrow> error + string" where
  "langchain_ref_line repr item =
     (case item of (ref, el) \<Rightarrow>
        bindE (py_get el ''semantic'' (JStr ''?'')) (\<lambda>semantic.
        bindE (py_get el ''text'' (JStr ''(no text)'')) (\<lambda>text.
        Inr (''['' @ ref @ ''] '' @ py_str repr semantic @ '': '' @ py_str repr text))))"

definition TextWebClient_format :: "('f json \<Rightarrow> string) \<Rightarrow> 'f json \<Rightarrow> error + string" where
  "TextWebClient_format repr result =
     bindE (py_get result ''view'' (JStr '''')) (\<lambda>view.
     bindE (py_get result ''elements'' (JObj [])) (\<lambda>elements.
     bindE (py_get result ''meta'' (JObj [])) (\<lambda>meta.
     bindE (py_items elements) (\<lambda>items.
     bindE (mapE (langchain_ref_line repr) items) (\<lambda>lines.
     bindE (py_get meta ''url'' (JStr ''unknown'')) (\<lambda>url.
     bindE (py_get meta ''title'' (JStr ''unknown'')) (\<lambda>title.
     bindE (py_get meta ''totalRefs'' (JInt 0)) (\<lambda>total.
     Inr (''URL: '' @ py_str repr url @ ''\<newline>Title: '' @ py_str repr title
          @ ''\<newline>Refs: '' @ py_str repr total
          @ ''\<newline>\<newline>'' @ py_str repr view
          @ ''\<newline>\<newline>Interactive elements:\<newline>''
          @ py_join ''\<newline>'' lines)))))))))"

text \<open>The six methods: one request each, then \<^verbatim>\<open>_format\<close> on what came back.\<close>

definition formatted ::
  "'f runtime \<Rightarrow> (error + 'f json) \<times> 'f world \<Rightarrow> (error + string) \<times> 'f world" where
  "formatted rt rw = (case rw of (r, w') \<Rightarrow> (bindE r (TextWebClient_format (rt_repr rt)), w'))"

definition TextWebClient_navigate ::
  "'f runtime \<Rightarrow> TextWebClient \<Rightarrow> string \<Rightarrow> 'f world \<Rightarrow> (error + string) \<times> 'f world" where
  "TextWebClient_navigate rt self url w =
     formatted rt (TextWebClient_post rt self ''/navigate'' [(''url'', JStr url)] w)"

definition TextWebClient_click ::
  "'f runtime \<Rightarrow> TextWebClient \<Rightarrow> int \<Rightarrow> 'f world \<Rightarrow> (error + string) \<times> 'f world" where
  "TextWebClient_click rt self ref w =
     formatted rt (TextWebClient_post rt self ''/click'' [(''ref'', JInt ref)] w)"

definition TextWebClient_type_text ::
  "'f runtime \<Rightarrow> TextWebClient \<Rightarrow> int \<Rightarrow> string \<Rightarrow> 'f world \<Rightarrow> (error + string) \<times> 'f world" where
  "TextWebClient_type_text rt self ref text w =
     formatted rt
       (TextWebClient_post rt self ''/type'' [(''ref'', JInt ref), (''text'', JStr text)] w)"

definition TextWebClient_select ::
  "'f runtime \<Rightarrow> TextWebClient \<Rightarrow> int \<Rightarrow> string \<Rightarrow> 'f world \<Rightarrow> (error + string) \<times> 'f world" where
  "TextWebClient_select rt self ref val w =
     formatted rt
       (TextWebClient_post rt self ''/select'' [(''ref'', JInt ref), (''value'', JStr val)] w)"

text \<open>
  \<^verbatim>\<open>scroll(self, direction="down", amount=1)\<close>: each argument is \<open>None\<close> when the caller
  leaves it out.
\<close>

definition TextWebClient_scroll ::
  "'f runtime \<Rightarrow> TextWebClient \<Rightarrow> string option \<Rightarrow> int option \<Rightarrow> 'f world
     \<Rightarrow> (error + string) \<times> 'f world" where
  "TextWebClient_scroll rt self direction amount w =
     (let d = (case direction of None \<Rightarrow> ''down'' | Some x \<Rightarrow> x);
          a = (case amount of None \<Rightarrow> 1 | Some n \<Rightarrow> n) in
      formatted rt
        (TextWebClient_post rt self ''/scroll'' [(''direction'', JStr d), (''amount'', JInt a)] w))"

definition TextWebClient_snapshot ::
  "'f runtime \<Rightarrow> TextWebClient \<Rightarrow> 'f world \<Rightarrow> (error + string) \<times> 'f world" where
  "TextWebClient_snapshot rt self w = formatted rt (TextWebClient_get rt self ''/snapshot'' w)"

text \<open>
  \<^verbatim>\<open>get_textweb_tools(base_url=DEFAULT_BASE_URL)\<close> makes one client and six tools that
  close over it. The tools are the invocations below, with the arguments of their schemas
  (\<^verbatim>\<open>ScrollInput\<close> gives \<^verbatim>\<open>amount\<close> the default 1, as does the tool's lambda; the
  snapshot tool takes one string and ignores it).
\<close>

definition get_textweb_tools :: "string option \<Rightarrow> 'f world \<Rightarrow> TextWebClient \<times> 'f world" where
  "get_textweb_tools arg w =
     TextWebClient_init
       (Some (case arg of None \<Rightarrow> langchain_DEFAULT_BASE_URL | Some u \<Rightarrow> u)) w"

datatype langchain_invocation =
    LNavigate string
  | LClick int
  | LType int string
  | LSelect int string
  | LScroll string "int option"
  | LSnapshot string

fun langchain_invoke ::
  "'f runtime \<Rightarrow> TextWebClient \<Rightarrow> langchain_invocation \<Rightarrow> 'f world
     \<Rightarrow> (error + string) \<times> 'f world" where
  "langchain_invoke rt client (LNavigate url) w = TextWebClient_navigate rt client url w"
| "langchain_invoke rt client (LClick ref) w = TextWebClient_click rt client ref w"
| "langchain_invoke rt client (LType ref text) w = TextWebClient_type_text rt client ref text w"
| "langchain_invoke rt client (LSelect ref val) w = TextWebClient_select rt client ref val w"
| "langchain_invoke rt client (LScroll direction amount) w =
     TextWebClient_scroll rt client (Some direction)
       (Some (case amount of None \<Rightarrow> 1 | Some n \<Rightarrow> n)) w"
| "langchain_invoke rt client (LSnapshot _) w = TextWebClient_snapshot rt client w"

section \<open>Notions the properties are stated with\<close>

text \<open>
  The lines of a text: the pieces between its newline characters, as Python's
  \<^verbatim>\<open>s.split("\n")\<close> gives them. \<open>last_lines n s\<close> are the last \<open>n\<close> of them.
\<close>

fun split_lines :: "string \<Rightarrow> string list" where
  "split_lines [] = [] # []"
| "split_lines (c # cs) =
     (if c = CHR ''\<newline>'' then [] # split_lines cs
      else (case split_lines cs of [] \<Rightarrow> [c] # [] | l # ls \<Rightarrow> (c # l) # ls))"

definition last_lines :: "nat \<Rightarrow> string \<Rightarrow> string list" where
  "last_lines n s = drop (length (split_lines s) - n) (split_lines s)"

text \<open>
  The six actions, and the table of the remote service's HTTP surface as the
  specification gives it: the method and the path of each action.
\<close>

datatype action = Navigate | Click | Type | Select | Scroll | Snapshot

fun spec_method :: "action \<Rightarrow> http_method" where
  "spec_method Snapshot = GET"
| "spec_method _ = POST"

fun spec_path :: "action \<Rightarrow> string" where
  "spec_path Navigate = ''/navigate''"
| "spec_path Click = ''/click''"
| "spec_path Type = ''/type''"
| "spec_path Select = ''/select''"
| "spec_path Scroll = ''/scroll''"
| "spec_path Snapshot = ''/snapshot''"

fun crewai_action :: "crewai_invocation \<Rightarrow> action" where
  "crewai_action (CNavigate _) = Navigate"
| "crewai_action (CClick _) = Click"
| "crewai_action (CType _ _) = Type"
| "crewai_action (CSelect _ _) = Select"
| "crewai_action (CScroll _) = Scroll"
| "crewai_action CSnapshot = Snapshot"

fun langchain_action :: "langchain_invocation \<Rightarrow> action" where
  "langchain_action (LNavigate _) = Navigate"
| "langchain_action (LClick _) = Click"
| "langchain_action (LType _ _) = Type"
| "langchain_action (LSelect _ _) = Select"
| "langchain_action (LScroll _ _) = Scroll"
| "langchain_action (LSnapshot _) = Snapshot"

subsection \<open>Concrete values for the examples\<close>

text \<open>
  The snapshot of the specification's formatting example, a response body that decodes
  to it, a decoder that knows this body, and a library that gives every call the same
  outcome.
\<close>

definition example_snapshot :: "'f json" where
  "example_snapshot =
     JObj [(''view'', JStr ''HOME''),
           (''elements'',
              JObj [(''1'', JObj [(''semantic'', JStr ''button''), (''text'', JStr ''Login'')])]),
           (''meta'',
              JObj [(''url'', JStr ''http://x''), (''title'', JStr ''X''), (''totalRefs'', JInt 1)])]"

text \<open>The same snapshot with an element whose text is the empty string.\<close>

definition empty_text_snapshot :: "'f json" where
  "empty_text_snapshot =
     JObj [(''view'', JStr ''HOME''),
           (''elements'',
              JObj [(''1'', JObj [(''semantic'', JStr ''button''), (''text'', JStr '''')])]),
           (''meta'',
              JObj [(''url'', JStr ''http://x''), (''title'', JStr ''X''), (''totalRefs'', JInt 1)])]"

text \<open>A snapshot whose elements mapping has the ref 2 before the ref 1.\<close>

definition unsorted_snapshot :: "'f json" where
  "unsorted_snapshot =
     JObj [(''view'', JStr ''HOME''),
           (''elements'',
              JObj [(''2'', JObj [(''semantic'', JStr ''link''), (''text'', JStr ''Next'')]),
                    (''1'', JObj [(''semantic'', JStr ''button''), (''text'', JStr ''Login'')])]),
           (''meta'', JObj [(''url'', JStr ''http://x''), (''title'', JStr ''X'')])]"

text \<open>
  A snapshot with gaps: an element without \<^verbatim>\<open>semantic\<close>, one without \<^verbatim>\<open>text\<close>, one
  with the empty \<^verbatim>\<open>text\<close>, and metadata with a URL only.
\<close>

definition sparse_snapshot :: "'f json" where
  "sparse_snapshot =
     JObj [(''view'', JStr ''HOME''),
           (''elements'',
              JObj [(''7'', JObj [(''text'', JStr ''Go'')]),
                    (''8'', JObj [(''semantic'', JStr ''link'')]),
                    (''9'', JObj [(''semantic'', JStr ''input''), (''text'', JStr '''')])]),
           (''meta'', JObj [(''url'', JStr ''http://x'')])]"

definition example_body :: string where
  \<open>example_body = ''{"view": "HOME", "elements": {"1": {"semantic": "button", "text": "Login"}}, "meta": {"url": "http://x", "title": "X", "totalRefs": 1}}''\<close>

definition example_repr :: "unit json \<Rightarrow> string" where
  "example_repr v = ''<repr>''"

text \<open>A body that is one integer of 4301 digits, which the example decoder refuses.\<close>

definition long_integer_body :: string where
  "long_integer_body = CHR ''7'' # replicate 4300 (CHR ''7'')"

definition example_json :: "string \<Rightarrow> unit decoding" where
  "example_json body =
     (if body = example_body then Decoded example_snapshot
      else if body = long_integer_body then IntTooLong
      else NotJSON)"

definition constant_call :: "outcome \<Rightarrow> unit request list \<Rightarrow> unit request \<Rightarrow> outcome" where
  "constant_call out history req = out"

definition example_runtime :: "outcome \<Rightarrow> unit runtime" where
  "example_runtime out =
     \<lparr>rt_session = constant_call out, rt_json = example_json, rt_repr = example_repr\<rparr>"

definition fresh_world :: "unit world" where
  "fresh_world = \<lparr>sent = [], next_session = 0\<rparr>"

text \<open>
  The CrewAI module as imported into the fresh process, and a LangChain client made
  there by \<^verbatim>\<open>get_textweb_tools()\<close> with no argument; each with the world it leaves.
\<close>

definition example_module :: crewai_module where
  "example_module = fst (crewai_import fresh_world)"

definition loaded_world :: "unit world" where
  "loaded_world = snd (crewai_import fresh_world)"

definition example_client :: TextWebClient where
  "example_client = fst (get_textweb_tools None fresh_world)"

definition client_world :: "unit world" where
  "client_world = snd (get_textweb_tools None fresh_world)"

section \<open>Auxiliary facts\<close>

lemma bindE_Inr [simp]: "bindE (Inr x) f = f x"
  by (simp add: bindE_def)

lemma bindE_Inl [simp]: "bindE (Inl e) f = Inl e"
  by (simp add: bindE_def)

lemma ref_line_same: "langchain_ref_line repr item = crewai_ref_line repr item"
  by (simp add: langchain_ref_line_def crewai_ref_line_def)

lemma mapE_ref_line_same:
  "mapE (langchain_ref_line repr) items = mapE (crewai_ref_line repr) items"
  by (induction items) (simp_all add: ref_line_same)

lemma map_Inr_mapE: "map f xs = map Inr ys \<Longrightarrow> mapE f xs = Inr ys"
  by (induction xs arbitrary: ys) auto

lemma crewai_format_JObj:
  assumes "dict_get d ''elements'' (JObj []) = JObj els"
    and "dict_get d ''meta'' (JObj []) = JObj m"
    and "mapE (crewai_ref_line repr) els = Inr lines"
  shows "crewai_format repr (JObj d) =
     Inr (''URL: '' @ py_str repr (dict_get m ''url'' (JStr ''unknown''))
           @ ''\<newline>Title: '' @ py_str repr (dict_get m ''title'' (JStr ''unknown''))
           @ ''\<newline>\<newline>'' @ py_str repr (dict_get d ''view'' (JStr ''''))
           @ ''\<newline>\<newline>Interactive elements:\<newline>''
           @ py_join ''\<newline>'' lines)"
  using assms by (simp add: crewai_format_def)

lemma langchain_format_JObj:
  assumes "dict_get d ''elements'' (JObj []) = JObj els"
    and "dict_get d ''meta'' (JObj []) = JObj m"
    and "mapE (crewai_ref_line repr) els = Inr lines"
  shows "TextWebClient_format repr (JObj d) =
     Inr (''URL: '' @ py_str repr (dict_get m ''url'' (JStr ''unknown''))
           @ ''\<newline>Title: '' @ py_str repr (dict_get m ''title'' (JStr ''unknown''))
           @ ''\<newline>Refs: '' @ py_str repr (dict_get m ''totalRefs'' (JInt 0))
           @ ''\<newline>\<newline>'' @ py_str repr (dict_get d ''view'' (JStr ''''))
           @ ''\<newline>\<newline>Interactive elements:\<newline>''
           @ py_join ''\<newline>'' lines)"
  using assms by (simp add: TextWebClient_format_def mapE_ref_line_same)

text \<open>When the CrewAI formatter returns, the response had the shape it reads.\<close>

lemma crewai_format_Inr:
  assumes "crewai_format repr result = Inr out"
  obtains d els m lines where
    "result = JObj d"
    "dict_get d ''elements'' (JObj []) = JObj els"
    "dict_get d ''meta'' (JObj []) = JObj m"
    "mapE (crewai_ref_line repr) els = Inr lines"
proof -
  obtain d where d: "result = JObj d"
    using assms by (cases result) (simp_all add: crewai_format_def)
  obtain els where els: "dict_get d ''elements'' (JObj []) = JObj els"
    using assms d by (cases "dict_get d ''elements'' (JObj [])") (simp_all add: crewai_format_def)
  obtain lines where lines: "mapE (crewai_ref_line repr) els = Inr lines"
    using assms d els
    by (cases "mapE (crewai_ref_line repr) els") (simp_all add: crewai_format_def)
  obtain m where m: "dict_get d ''meta'' (JObj []) = JObj m"
    using assms d els lines
    by (cases "dict_get d ''meta'' (JObj [])") (simp_all add: crewai_format_def)
  show ?thesis
    using that [OF d els m lines] .
qed

text \<open>The two formatters fail on the same values, with the same error.\<close>

lemma format_same_error:
  "crewai_format repr result = Inl e \<longleftrightarrow> TextWebClient_format repr result = Inl e"
proof (cases result)
  case (JObj d)
  note d = this
  show ?thesis
  proof (cases "dict_get d ''elements'' (JObj [])")
    case (JObj els)
    note els = this
    show ?thesis
    proof (cases "mapE (crewai_ref_line repr) els")
      case (Inl e')
      then show ?thesis
        using d els by (simp add: crewai_format_def TextWebClient_format_def mapE_ref_line_same)
    next
      case (Inr lines)
      then show ?thesis
        using d els
        by (cases "dict_get d ''meta'' (JObj [])")
           (simp_all add: crewai_format_def TextWebClient_format_def mapE_ref_line_same)
    qed
  qed (simp_all add: d crewai_format_def TextWebClient_format_def)
qed (simp_all add: crewai_format_def TextWebClient_format_def)

text \<open>Splitting a text at its newlines undoes joining lines that hold none.\<close>

lemma split_lines_not_Nil [simp]: "split_lines s \<noteq> []"
  by (induction s) (auto split: list.splits)

lemma split_lines_no_newline:
  "CHR ''\<newline>'' \<notin> set s \<Longrightarrow> split_lines s = [s]"
  by (induction s) auto

lemma split_lines_append:
  "split_lines (a @ CHR ''\<newline>'' # b) = split_lines a @ split_lines b"
proof (induction a)
  case Nil
  show ?case by simp
next
  case (Cons c a)
  show ?case
  proof (cases "c = CHR ''\<newline>''")
    case True
    then show ?thesis using Cons by simp
  next
    case False
    obtain l ls where "split_lines a = l # ls"
      by (cases "split_lines a") simp_all
    then show ?thesis using False Cons by simp
  qed
qed

lemma split_lines_join:
  assumes "lines \<noteq> []" and "\<forall>l \<in> set lines. CHR ''\<newline>'' \<notin> set l"
  shows "split_lines (py_join ''\<newline>'' lines) = lines"
  using assms
proof (induction lines rule: induct_list012)
  case 1
  then show ?case by simp
next
  case (2 x)
  then show ?case by (simp add: split_lines_no_newline)
next
  case (3 x y ys)
  have "split_lines (x @ CHR ''\<newline>'' # py_join ''\<newline>'' (y # ys))
          = split_lines x @ split_lines (py_join ''\<newline>'' (y # ys))"
    by (rule split_lines_append)
  then show ?case using 3 by (simp add: split_lines_no_newline)
qed

lemma last_lines_after_header:
  assumes "\<forall>l \<in> set lines. CHR ''\<newline>'' \<notin> set l"
  shows "last_lines (length lines) (pre @ CHR ''\<newline>'' # py_join ''\<newline>'' lines) = lines"
proof (cases "lines = []")
  case True
  then show ?thesis by (simp add: last_lines_def)
next
  case False
  then have "split_lines (py_join ''\<newline>'' lines) = lines"
    using assms by (rule split_lines_join)
  then show ?thesis
    by (simp add: last_lines_def split_lines_append)
qed

text \<open>The lines of a mapping whose values are all descriptors.\<close>

lemma mapE_descriptor_lines:
  "mapE (crewai_ref_line repr) (map (\<lambda>(ref, e). (ref, JObj e)) des) =
     Inr (map (\<lambda>(ref, e). ''['' @ ref @ ''] ''
                 @ (case map_of e ''semantic'' of None \<Rightarrow> ''?'' | Some v \<Rightarrow> py_str repr v)
                 @ '': ''
                 @ (case map_of e ''text'' of None \<Rightarrow> ''(no text)'' | Some v \<Rightarrow> py_str repr v))
            des)"
proof (induction des)
  case Nil
  show ?case by simp
next
  case (Cons x des)
  obtain ref e where x: "x = (ref, e)"
    by (cases x)
  show ?case
    using Cons
    by (simp add: x crewai_ref_line_def dict_get_def split: option.splits)
qed

text \<open>What one call sends and returns, in both adapters.\<close>

lemma default_base_stripped [simp]:
  "py_rstrip crewai_DEFAULT_BASE_URL ''/'' = ''http://localhost:3000''"
  "py_rstrip langchain_DEFAULT_BASE_URL ''/'' = ''http://localhost:3000''"
  by (simp_all add: py_rstrip_def crewai_DEFAULT_BASE_URL_def langchain_DEFAULT_BASE_URL_def)

lemma crewai_call_post:
  assumes "method \<noteq> ''GET''"
  shows "crewai_call rt m endpoint data method b w =
     (crewai_respond rt (rt_session rt (sent w)
        \<lparr>req_method = POST, req_url = py_rstrip b ''/'' @ endpoint,
         req_json = Some (JObj (or_empty data)), req_timeout = 30,
         req_session = cm_session m\<rparr>),
      w\<lparr>sent := sent w @
        [\<lparr>req_method = POST, req_url = py_rstrip b ''/'' @ endpoint,
          req_json = Some (JObj (or_empty data)), req_timeout = 30,
          req_session = cm_session m\<rparr>]\<rparr>)"
  using assms by (simp add: crewai_call_def session_post_def session_request_def Let_def)

lemma crewai_call_get:
  "crewai_call rt m endpoint data ''GET'' b w =
     (crewai_respond rt (rt_session rt (sent w)
        \<lparr>req_method = GET, req_url = py_rstrip b ''/'' @ endpoint,
         req_json = None, req_timeout = 30, req_session = cm_session m\<rparr>),
      w\<lparr>sent := sent w @
        [\<lparr>req_method = GET, req_url = py_rstrip b ''/'' @ endpoint,
          req_json = None, req_timeout = 30, req_session = cm_session m\<rparr>]\<rparr>)"
  by (simp add: crewai_call_def session_get_def session_request_def Let_def)

lemma TextWebClient_post_eq:
  "TextWebClient_post rt c endpoint data w =
     (checked_json rt (rt_session rt (sent w)
        \<lparr>req_method = POST, req_url = base_url c @ endpoint,
         req_json = Some (JObj data), req_timeout = 30, req_session = session c\<rparr>),
      w\<lparr>sent := sent w @
        [\<lparr>req_method = POST, req_url = base_url c @ endpoint,
          req_json = Some (JObj data), req_timeout = 30, req_session = session c\<rparr>]\<rparr>)"
  by (simp add: TextWebClient_post_def session_post_def session_request_def)

lemma TextWebClient_get_eq:
  "TextWebClient_get rt c endpoint w =
     (checked_json rt (rt_session rt (sent w)
        \<lparr>req_method = GET, req_url = base_url c @ endpoint,
         req_json = None, req_timeout = 30, req_session = session c\<rparr>),
      w\<lparr>sent := sent w @
        [\<lparr>req_method = GET, req_url = base_url c @ endpoint,
          req_json = None, req_timeout = 30, req_session = session c\<rparr>]\<rparr>)"
  by (simp add: TextWebClient_get_def session_get_def session_request_def)

lemmas crewai_run_defs =
  TextWebBrowseTool_run_def TextWebClickTool_run_def TextWebTypeTool_run_def
  TextWebSelectTool_run_def TextWebScrollTool_run_def TextWebSnapshotTool_run_def

lemmas langchain_method_defs =
  TextWebClient_navigate_def TextWebClient_click_def TextWebClient_type_text_def
  TextWebClient_select_def TextWebClient_scroll_def TextWebClient_snapshot_def

text \<open>The request of each invocation, appended to the requests sent before.\<close>

lemma crewai_invoke_sent:
  "sent (snd (crewai_invoke rt m cinv w)) = sent w @
     [\<lparr>req_method = spec_method (crewai_action cinv),
       req_url = ''http://localhost:3000'' @ spec_path (crewai_action cinv),
       req_json = (case cinv of
           CNavigate url \<Rightarrow> Some (JObj [(''url'', JStr url)])
         | CClick ref \<Rightarrow> Some (JObj [(''ref'', JInt ref)])
         | CType ref text \<Rightarrow> Some (JObj [(''ref'', JInt ref), (''text'', JStr text)])
         | CSelect ref val \<Rightarrow> Some (JObj [(''ref'', JInt ref), (''value'', JStr val)])
         | CScroll direction \<Rightarrow> Some (JObj [(''direction'', JStr direction)])
         | CSnapshot \<Rightarrow> None),
       req_timeout = 30, req_session = cm_session m\<rparr>]"
  by (cases cinv)
     (simp_all add: crewai_run_defs crewai_call_post crewai_call_get or_empty_def)

lemma langchain_invoke_sent:
  "sent (snd (langchain_invoke rt c linv w)) = sent w @
     [\<lparr>req_method = spec_method (langchain_action linv),
       req_url = base_url c @ spec_path (langchain_action linv),
       req_json = (case linv of
           LNavigate url \<Rightarrow> Some (JObj [(''url'', JStr url)])
         | LClick ref \<Rightarrow> Some (JObj [(''ref'', JInt ref)])
         | LType ref text \<Rightarrow> Some (JObj [(''ref'', JInt ref), (''text'', JStr text)])
         | LSelect ref val \<Rightarrow> Some (JObj [(''ref'', JInt ref), (''value'', JStr val)])
         | LScroll direction amount \<Rightarrow>
             Some (JObj [(''direction'', JStr direction),
                         (''amount'', JInt (case amount of None \<Rightarrow> 1 | Some n \<Rightarrow> n))])
         | LSnapshot _ \<Rightarrow> None),
       req_timeout = 30, req_session = session c\<rparr>]"
  by (cases linv)
     (simp_all add: langchain_method_defs formatted_def TextWebClient_post_eq
        TextWebClient_get_eq Let_def)

lemma crewai_invoke_next_session:
  "next_session (snd (crewai_invoke rt m cinv w)) = next_session w"
  by (cases cinv)
     (simp_all add: crewai_run_defs crewai_call_post crewai_call_get)

lemma langchain_invoke_next_session:
  "next_session (snd (langchain_invoke rt c linv w)) = next_session w"
  by (cases linv)
     (simp_all add: langchain_method_defs formatted_def TextWebClient_post_eq
        TextWebClient_get_eq Let_def)

lemma TextWebClient_init_eq:
  "TextWebClient_init arg w =
     (\<lparr>base_url = py_rstrip (case arg of None \<Rightarrow> ''http://localhost:3000'' | Some u \<Rightarrow> u) ''/'',
       session = next_session w\<rparr>,
      w\<lparr>next_session := Suc (next_session w)\<rparr>)"
  by (simp add: TextWebClient_init_def requests_Session_def langchain_DEFAULT_BASE_URL_def
      split: option.splits)

lemma get_textweb_tools_eq:
  "get_textweb_tools arg w =
     (\<lparr>base_url = py_rstrip (case arg of None \<Rightarrow> ''http://localhost:3000'' | Some u \<Rightarrow> u) ''/'',
       session = next_session w\<rparr>,
      w\<lparr>next_session := Suc (next_session w)\<rparr>)"
  by (simp add: get_textweb_tools_def TextWebClient_init_eq langchain_DEFAULT_BASE_URL_def
      split: option.splits)

lemma example_module_eq [simp]: "example_module = \<lparr>cm_session = 0\<rparr>"
  by (simp add: example_module_def crewai_import_def requests_Session_def fresh_world_def)

lemma loaded_world_eq [simp]: "loaded_world = \<lparr>sent = [], next_session = 1\<rparr>"
  by (simp add: loaded_world_def crewai_import_def requests_Session_def fresh_world_def)

lemma example_client_eq [simp]:
  "example_client = \<lparr>base_url = ''http://localhost:3000'', session = 0\<rparr>"
  by (simp add: example_client_def get_textweb_tools_eq fresh_world_def py_rstrip_def)

lemma client_world_eq [simp]: "client_world = \<lparr>sent = [], next_session = 1\<rparr>"
  by (simp add: client_world_def get_textweb_tools_eq fresh_world_def)

text \<open>The result of an invocation, from the outcome of the request it sent.\<close>

lemma crewai_invoke_fst:
  "fst (crewai_invoke rt m cinv w) =
     crewai_respond rt (rt_session rt (sent w) (last (sent (snd (crewai_invoke rt m cinv w)))))"
  by (cases cinv)
     (simp_all add: crewai_run_defs crewai_call_post crewai_call_get)

lemma langchain_invoke_fst:
  "fst (langchain_invoke rt c linv w) =
     bindE (checked_json rt (rt_session rt (sent w) (last (sent (snd (langchain_invoke rt c linv w))))))
       (TextWebClient_format (rt_repr rt))"
  by (cases linv)
     (simp_all add: langchain_method_defs formatted_def TextWebClient_post_eq
        TextWebClient_get_eq Let_def)

lemma respond_same_error:
  "crewai_respond rt out = Inl e \<longleftrightarrow>
     bindE (checked_json rt out) (TextWebClient_format (rt_repr rt)) = Inl e"
proof (cases out)
  case (Failed f)
  then show ?thesis
    by (simp add: crewai_respond_def checked_json_def)
next
  case (Response st body)
  show ?thesis
  proof (cases "400 \<le> st \<and> st < 600")
    case True
    then show ?thesis
      using Response by (simp add: crewai_respond_def checked_json_def raise_for_status_def)
  next
    case False
    then show ?thesis
      using Response format_same_error [of "rt_repr rt" _ e]
      by (cases "rt_json rt body")
         (simp_all add: crewai_respond_def checked_json_def raise_for_status_def
            response_json_def)
  qed
qed

lemma respond_Inr_format:
  assumes "crewai_respond rt out = Inr a"
  obtains st body result where
    "out = Response st body"
    "rt_json rt body = Decoded result"
    "crewai_format (rt_repr rt) result = Inr a"
    "bindE (checked_json rt out) (TextWebClient_format (rt_repr rt))
       = TextWebClient_format (rt_repr rt) result"
proof (cases out)
  case (Failed f)
  then show ?thesis
    using assms by (simp add: crewai_respond_def)
next
  case (Response st body)
  have ok: "\<not> (400 \<le> st \<and> st < 600)"
    using assms Response
    by (auto simp: crewai_respond_def raise_for_status_def split: if_splits)
  obtain result where r: "rt_json rt body = Decoded result"
    using assms Response ok
    by (cases "rt_json rt body")
       (simp_all add: crewai_respond_def raise_for_status_def response_json_def)
  show ?thesis
  proof (rule that [of st body result])
    show "out = Response st body"
      by (rule Response)
    show "rt_json rt body = Decoded result"
      by (rule r)
    show "crewai_format (rt_repr rt) result = Inr a"
      using assms Response ok r
      by (simp add: crewai_respond_def raise_for_status_def response_json_def)
    show "bindE (checked_json rt out) (TextWebClient_format (rt_repr rt))
            = TextWebClient_format (rt_repr rt) result"
      using Response ok r
      by (auto simp: checked_json_def raise_for_status_def response_json_def)
  qed
qed

text \<open>
  Where the CrewAI formatter returns, the two texts share the header up to the title
  and all that follows it; the LangChain text has the line of the total in between.
\<close>

lemma format_refs_line:
  assumes "crewai_format repr result = Inr a"
  obtains d m rest where
    "result = JObj d"
    "dict_get d ''meta'' (JObj []) = JObj m"
    "a = ''URL: '' @ (case map_of m ''url'' of None \<Rightarrow> ''unknown'' | Some v \<Rightarrow> py_str repr v)
         @ ''\<newline>Title: ''
         @ (case map_of m ''title'' of None \<Rightarrow> ''unknown'' | Some v \<Rightarrow> py_str repr v)
         @ ''\<newline>\<newline>'' @ rest"
    "TextWebClient_format repr result =
       Inr (''URL: '' @ (case map_of m ''url'' of None \<Rightarrow> ''unknown'' | Some v \<Rightarrow> py_str repr v)
            @ ''\<newline>Title: ''
            @ (case map_of m ''title'' of None \<Rightarrow> ''unknown'' | Some v \<Rightarrow> py_str repr v)
            @ ''\<newline>Refs: ''
            @ (case map_of m ''totalRefs'' of None \<Rightarrow> ''0'' | Some v \<Rightarrow> py_str repr v)
            @ ''\<newline>\<newline>'' @ rest)"
proof -
  from assms obtain d els m lines where
    d: "result = JObj d"
    and els: "dict_get d ''elements'' (JObj []) = JObj els"
    and m: "dict_get d ''meta'' (JObj []) = JObj m"
    and lines: "mapE (crewai_ref_line repr) els = Inr lines"
    by (rule crewai_format_Inr)
  have url: "py_str repr (dict_get m ''url'' (JStr ''unknown''))
      = (case map_of m ''url'' of None \<Rightarrow> ''unknown'' | Some v \<Rightarrow> py_str repr v)"
    by (simp add: dict_get_def split: option.splits)
  have title: "py_str repr (dict_get m ''title'' (JStr ''unknown''))
      = (case map_of m ''title'' of None \<Rightarrow> ''unknown'' | Some v \<Rightarrow> py_str repr v)"
    by (simp add: dict_get_def split: option.splits)
  have total: "py_str repr (dict_get m ''totalRefs'' (JInt 0))
      = (case map_of m ''totalRefs'' of None \<Rightarrow> ''0'' | Some v \<Rightarrow> py_str repr v)"
    by (simp add: dict_get_def int_str_def nat_digits.simps digit_char_def
        split: option.splits)
  define rest where "rest = py_str repr (dict_get d ''view'' (JStr ''''))
      @ ''\<newline>\<newline>Interactive elements:\<newline>'' @ py_join ''\<newline>'' lines"
  show ?thesis
  proof (rule that [of d m rest])
    show "result = JObj d"
      by (rule d)
    show "dict_get d ''meta'' (JObj []) = JObj m"
      by (rule m)
    show "a = ''URL: '' @ (case map_of m ''url'' of None \<Rightarrow> ''unknown'' | Some v \<Rightarrow> py_str repr v)
         @ ''\<newline>Title: ''
         @ (case map_of m ''title'' of None \<Rightarrow> ''unknown'' | Some v \<Rightarrow> py_str repr v)
         @ ''\<newline>\<newline>'' @ rest"
      using assms crewai_format_JObj [OF els m lines]
      unfolding d url title by (simp add: rest_def)
    show "TextWebClient_format repr result =
       Inr (''URL: '' @ (case map_of m ''url'' of None \<Rightarrow> ''unknown'' | Some v \<Rightarrow> py_str repr v)
            @ ''\<newline>Title: ''
            @ (case map_of m ''title'' of None \<Rightarrow> ''unknown'' | Some v \<Rightarrow> py_str repr v)
            @ ''\<newline>Refs: ''
            @ (case map_of m ''totalRefs'' of None \<Rightarrow> ''0'' | Some v \<Rightarrow> py_str repr v)
            @ ''\<newline>\<newline>'' @ rest)"
      using langchain_format_JObj [OF els m lines]
      unfolding d url title total by (simp add: rest_def)
  qed
qed

section \<open>The response normalizer\<close>

text \<open>
  Claim C2, as the code has it. For the snapshot of the specification's formatting
  example, the CrewAI formatter returns exactly the text the specification gives; the
  LangChain formatter returns that text with the line \<^verbatim>\<open>Refs: 1\<close> after the title.
\<close>

theorem C2_example_snapshot_texts:
  "crewai_format repr example_snapshot =
     Inr ''URL: http://x\<newline>Title: X\<newline>\<newline>HOME\<newline>\<newline>Interactive elements:\<newline>[1] button: Login''
   \<and> TextWebClient_format repr example_snapshot =
     Inr ''URL: http://x\<newline>Title: X\<newline>Refs: 1\<newline>\<newline>HOME\<newline>\<newline>Interactive elements:\<newline>[1] button: Login''"
  by (simp add: example_snapshot_def crewai_format_def TextWebClient_format_def
      crewai_ref_line_def langchain_ref_line_def dict_get_def int_str_def nat_digits.simps
      digit_char_def)

text \<open>
  Claim C2 as stated fails for the LangChain adapter: on the example snapshot
  \<^verbatim>\<open>_format\<close> does not return the text of the specification.
\<close>

theorem C2_langchain_counterexample:
  "TextWebClient_format example_repr example_snapshot \<noteq>
     Inr ''URL: http://x\<newline>Title: X\<newline>\<newline>HOME\<newline>\<newline>Interactive elements:\<newline>[1] button: Login''"
  by (simp add: example_snapshot_def TextWebClient_format_def langchain_ref_line_def
      dict_get_def int_str_def nat_digits.simps digit_char_def)

text \<open>
  Claim C3, as the code has it. For every snapshot whose elements are descriptors and
  whose metadata is an object or absent, the text of each adapter is the header, the
  view and one line for each element; in it a missing \<^verbatim>\<open>url\<close> or \<^verbatim>\<open>title\<close> of the
  metadata is printed as \<^verbatim>\<open>unknown\<close>, an element without the key \<^verbatim>\<open>semantic\<close> is
  printed with \<^verbatim>\<open>?\<close> and an element without the key \<^verbatim>\<open>text\<close> with \<^verbatim>\<open>(no text)\<close>. A
  field that is present is printed as it is, and a string prints as itself: an element
  whose \<^verbatim>\<open>text\<close> is the empty string is printed with nothing after the colon.
\<close>

theorem C3_defaults_for_missing_keys:
  assumes "dict_get d ''elements'' (JObj []) = JObj (map (\<lambda>(ref, e). (ref, JObj e)) des)"
    and "dict_get d ''meta'' (JObj []) = JObj m"
  shows "crewai_format repr (JObj d) =
      Inr (''URL: '' @ (case map_of m ''url'' of None \<Rightarrow> ''unknown'' | Some v \<Rightarrow> py_str repr v)
           @ ''\<newline>Title: ''
           @ (case map_of m ''title'' of None \<Rightarrow> ''unknown'' | Some v \<Rightarrow> py_str repr v)
           @ ''\<newline>\<newline>'' @ py_str repr (dict_get d ''view'' (JStr ''''))
           @ ''\<newline>\<newline>Interactive elements:\<newline>''
           @ py_join ''\<newline>''
               (map (\<lambda>(ref, e). ''['' @ ref @ ''] ''
                       @ (case map_of e ''semantic'' of None \<Rightarrow> ''?'' | Some v \<Rightarrow> py_str repr v)
                       @ '': ''
                       @ (case map_of e ''text'' of None \<Rightarrow> ''(no text)''
                          | Some v \<Rightarrow> py_str repr v)) des))
    \<and> TextWebClient_format repr (JObj d) =
      Inr (''URL: '' @ (case map_of m ''url'' of None \<Rightarrow> ''unknown'' | Some v \<Rightarrow> py_str repr v)
           @ ''\<newline>Title: ''
           @ (case map_of m ''title'' of None \<Rightarrow> ''unknown'' | Some v \<Rightarrow> py_str repr v)
           @ ''\<newline>Refs: ''
           @ (case map_of m ''totalRefs'' of None \<Rightarrow> ''0'' | Some v \<Rightarrow> py_str repr v)
           @ ''\<newline>\<newline>'' @ py_str repr (dict_get d ''view'' (JStr ''''))
           @ ''\<newline>\<newline>Interactive elements:\<newline>''
           @ py_join ''\<newline>''
               (map (\<lambda>(ref, e). ''['' @ ref @ ''] ''
                       @ (case map_of e ''semantic'' of None \<Rightarrow> ''?'' | Some v \<Rightarrow> py_str repr v)
                       @ '': ''
                       @ (case map_of e ''text'' of None \<Rightarrow> ''(no text)''
                          | Some v \<Rightarrow> py_str repr v)) des))
    \<and> py_str repr (JStr s) = s"
proof -
  let ?line = "\<lambda>(ref, e). ''['' @ ref @ ''] ''
                 @ (case map_of e ''semantic'' of None \<Rightarrow> ''?'' | Some v \<Rightarrow> py_str repr v)
                 @ '': ''
                 @ (case map_of e ''text'' of None \<Rightarrow> ''(no text)'' | Some v \<Rightarrow> py_str repr v)"
  have lines: "mapE (crewai_ref_line repr) (map (\<lambda>(ref, e). (ref, JObj e)) des)
                 = Inr (map ?line des)"
    by (rule mapE_descriptor_lines)
  have url: "py_str repr (dict_get m ''url'' (JStr ''unknown''))
      = (case map_of m ''url'' of None \<Rightarrow> ''unknown'' | Some v \<Rightarrow> py_str repr v)"
    by (simp add: dict_get_def split: option.splits)
  have title: "py_str repr (dict_get m ''title'' (JStr ''unknown''))
      = (case map_of m ''title'' of None \<Rightarrow> ''unknown'' | Some v \<Rightarrow> py_str repr v)"
    by (simp add: dict_get_def split: option.splits)
  have total: "py_str repr (dict_get m ''totalRefs'' (JInt 0))
      = (case map_of m ''totalRefs'' of None \<Rightarrow> ''0'' | Some v \<Rightarrow> py_str repr v)"
    by (simp add: dict_get_def int_str_def nat_digits.simps digit_char_def
        split: option.splits)
  have c: "crewai_format repr (JObj d) =
      Inr (''URL: '' @ (case map_of m ''url'' of None \<Rightarrow> ''unknown'' | Some v \<Rightarrow> py_str repr v)
           @ ''\<newline>Title: ''
           @ (case map_of m ''title'' of None \<Rightarrow> ''unknown'' | Some v \<Rightarrow> py_str repr v)
           @ ''\<newline>\<newline>'' @ py_str repr (dict_get d ''view'' (JStr ''''))
           @ ''\<newline>\<newline>Interactive elements:\<newline>''
           @ py_join ''\<newline>'' (map ?line des))"
    unfolding crewai_format_JObj [OF assms lines] url title by simp
  have l: "TextWebClient_format repr (JObj d) =
      Inr (''URL: '' @ (case map_of m ''url'' of None \<Rightarrow> ''unknown'' | Some v \<Rightarrow> py_str repr v)
           @ ''\<newline>Title: ''
           @ (case map_of m ''title'' of None \<Rightarrow> ''unknown'' | Some v \<Rightarrow> py_str repr v)
           @ ''\<newline>Refs: ''
           @ (case map_of m ''totalRefs'' of None \<Rightarrow> ''0'' | Some v \<Rightarrow> py_str repr v)
           @ ''\<newline>\<newline>'' @ py_str repr (dict_get d ''view'' (JStr ''''))
           @ ''\<newline>\<newline>Interactive elements:\<newline>''
           @ py_join ''\<newline>'' (map ?line des))"
    unfolding langchain_format_JObj [OF assms lines] url title total by simp
  show ?thesis
    using c l by simp
qed

text \<open>
  C3 at a snapshot with an element without \<^verbatim>\<open>semantic\<close>, one without \<^verbatim>\<open>text\<close> and
  one with the empty \<^verbatim>\<open>text\<close>, whose metadata has a URL, no title and no total; and at
  a snapshot with nothing but a view.
\<close>

theorem C3_defaults_witness:
  "crewai_format example_repr sparse_snapshot =
     Inr ''URL: http://x\<newline>Title: unknown\<newline>\<newline>HOME\<newline>\<newline>Interactive elements:\<newline>[7] ?: Go\<newline>[8] link: (no text)\<newline>[9] input: ''
   \<and> TextWebClient_format example_repr sparse_snapshot =
     Inr ''URL: http://x\<newline>Title: unknown\<newline>Refs: 0\<newline>\<newline>HOME\<newline>\<newline>Interactive elements:\<newline>[7] ?: Go\<newline>[8] link: (no text)\<newline>[9] input: ''
   \<and> crewai_format example_repr (JObj [(''view'', JStr ''HOME'')]) =
     Inr ''URL: unknown\<newline>Title: unknown\<newline>\<newline>HOME\<newline>\<newline>Interactive elements:\<newline>''
   \<and> TextWebClient_format example_repr (JObj [(''view'', JStr ''HOME'')]) =
     Inr ''URL: unknown\<newline>Title: unknown\<newline>Refs: 0\<newline>\<newline>HOME\<newline>\<newline>Interactive elements:\<newline>''"
proof -
  let ?des = "[(''7'', [(''text'', JStr ''Go'')]),
               (''8'', [(''semantic'', JStr ''link'')]),
               (''9'', [(''semantic'', JStr ''input''), (''text'', JStr '''')])]
              :: (string \<times> (string \<times> unit json) list) list"
  let ?m = "[(''url'', JStr ''http://x'')] :: (string \<times> unit json) list"
  let ?d = "[(''view'', JStr ''HOME''),
             (''elements'', JObj (map (\<lambda>(ref, e). (ref, JObj e)) ?des)),
             (''meta'', JObj ?m)]"
  let ?d' = "[(''view'', JStr ''HOME'')] :: (string \<times> unit json) list"
  have h1: "dict_get ?d ''elements'' (JObj []) = JObj (map (\<lambda>(ref, e). (ref, JObj e)) ?des)"
    by (simp add: dict_get_def)
  have h2: "dict_get ?d ''meta'' (JObj []) = JObj ?m"
    by (simp add: dict_get_def)
  have h1': "dict_get ?d' ''elements'' (JObj []) = JObj (map (\<lambda>(ref, e). (ref, JObj e)) [])"
    by (simp add: dict_get_def)
  have h2': "dict_get ?d' ''meta'' (JObj []) = JObj []"
    by (simp add: dict_get_def)
  have d: "sparse_snapshot = JObj ?d"
    by (simp add: sparse_snapshot_def)
  show ?thesis
    unfolding d
    using C3_defaults_for_missing_keys [OF h1 h2, of example_repr "''''"]
      C3_defaults_for_missing_keys [OF h1' h2', of example_repr "''''"]
    by (simp add: dict_get_def)
qed

text \<open>
  Claim C3 as stated fails where an element's \<^verbatim>\<open>text\<close> is the empty string: both
  adapters print nothing after the colon, not \<^verbatim>\<open>(no text)\<close>.
\<close>

theorem C3_empty_text_counterexample:
  "crewai_format example_repr empty_text_snapshot =
     Inr ''URL: http://x\<newline>Title: X\<newline>\<newline>HOME\<newline>\<newline>Interactive elements:\<newline>[1] button: ''
   \<and> TextWebClient_format example_repr empty_text_snapshot =
     Inr ''URL: http://x\<newline>Title: X\<newline>Refs: 1\<newline>\<newline>HOME\<newline>\<newline>Interactive elements:\<newline>[1] button: ''"
  by (simp add: empty_text_snapshot_def crewai_format_def TextWebClient_format_def
      crewai_ref_line_def langchain_ref_line_def dict_get_def int_str_def nat_digits.simps
      digit_char_def)

text \<open>
  Claim C8. In both adapters the text ends with the header line
  \<^verbatim>\<open>Interactive elements:\<close> followed by the renderings of the entries of the elements
  mapping, joined by newlines, in the order of the mapping. Where no rendering holds a
  newline itself, the last lines of the text, as many as the mapping has entries, are
  these renderings: the \<open>k\<close>-th of them is the line of the \<open>k\<close>-th entry, whatever the refs
  are.
\<close>

theorem C8_element_lines_in_mapping_order:
  assumes "dict_get d ''elements'' (JObj []) = JObj els"
    and "dict_get d ''meta'' (JObj []) = JObj m"
    and "map (crewai_ref_line repr) els = map Inr lines"
  shows "(\<exists>out. crewai_format repr (JObj d) = Inr out
            \<and> suffix (''\<newline>Interactive elements:\<newline>'' @ py_join ''\<newline>'' lines) out
            \<and> ((\<forall>l \<in> set lines. CHR ''\<newline>'' \<notin> set l) \<longrightarrow>
                 length (last_lines (length els) out) = length els
                 \<and> (\<forall>k < length els.
                       crewai_ref_line repr (els ! k) = Inr (last_lines (length els) out ! k))))
       \<and> (\<exists>out. TextWebClient_format repr (JObj d) = Inr out
            \<and> suffix (''\<newline>Interactive elements:\<newline>'' @ py_join ''\<newline>'' lines) out
            \<and> ((\<forall>l \<in> set lines. CHR ''\<newline>'' \<notin> set l) \<longrightarrow>
                 length (last_lines (length els) out) = length els
                 \<and> (\<forall>k < length els.
                       langchain_ref_line repr (els ! k) = Inr (last_lines (length els) out ! k))))"
proof -
  have mapE: "mapE (crewai_ref_line repr) els = Inr lines"
    using assms(3) by (rule map_Inr_mapE)
  have len: "length lines = length els"
    using assms(3) by (metis length_map)
  have nth: "crewai_ref_line repr (els ! k) = Inr (lines ! k)" if "k < length els" for k
    using assms(3) that len by (metis nth_map)
  define tail where "tail = ''\<newline>Interactive elements:\<newline>'' @ py_join ''\<newline>'' lines"
  define pre where "pre = ''URL: '' @ py_str repr (dict_get m ''url'' (JStr ''unknown''))
           @ ''\<newline>Title: '' @ py_str repr (dict_get m ''title'' (JStr ''unknown''))
           @ ''\<newline>\<newline>'' @ py_str repr (dict_get d ''view'' (JStr '''')) @ ''\<newline>''"
  define pre' where "pre' = ''URL: '' @ py_str repr (dict_get m ''url'' (JStr ''unknown''))
           @ ''\<newline>Title: '' @ py_str repr (dict_get m ''title'' (JStr ''unknown''))
           @ ''\<newline>Refs: '' @ py_str repr (dict_get m ''totalRefs'' (JInt 0))
           @ ''\<newline>\<newline>'' @ py_str repr (dict_get d ''view'' (JStr '''')) @ ''\<newline>''"
  have c: "crewai_format repr (JObj d) = Inr (pre @ tail)"
    using crewai_format_JObj [OF assms(1) assms(2) mapE] by (simp add: pre_def tail_def)
  have l: "TextWebClient_format repr (JObj d) = Inr (pre' @ tail)"
    using langchain_format_JObj [OF assms(1) assms(2) mapE] by (simp add: pre'_def tail_def)
  have suf: "suffix tail (p @ tail)" for p
    by (rule suffixI) (rule refl)
  have last: "last_lines (length els) (p @ tail) = lines"
    if "\<forall>l \<in> set lines. CHR ''\<newline>'' \<notin> set l" for p
  proof -
    have "p @ tail = (p @ ''\<newline>Interactive elements:'') @ CHR ''\<newline>'' # py_join ''\<newline>'' lines"
      by (simp add: tail_def)
    then show ?thesis
      using last_lines_after_header [OF that, of "p @ ''\<newline>Interactive elements:''"] len
      by simp
  qed
  have "\<exists>out. crewai_format repr (JObj d) = Inr out \<and> suffix tail out
            \<and> ((\<forall>l \<in> set lines. CHR ''\<newline>'' \<notin> set l) \<longrightarrow>
                 length (last_lines (length els) out) = length els
                 \<and> (\<forall>k < length els.
                       crewai_ref_line repr (els ! k) = Inr (last_lines (length els) out ! k)))"
    using c suf [of pre] last [of pre] len nth by auto
  moreover have "\<exists>out. TextWebClient_format repr (JObj d) = Inr out \<and> suffix tail out
            \<and> ((\<forall>l \<in> set lines. CHR ''\<newline>'' \<notin> set l) \<longrightarrow>
                 length (last_lines (length els) out) = length els
                 \<and> (\<forall>k < length els.
                       langchain_ref_line repr (els ! k) = Inr (last_lines (length els) out ! k)))"
    using l suf [of pre'] last [of pre'] len nth by (auto simp: ref_line_same)
  ultimately show ?thesis
    unfolding tail_def by blast
qed

text \<open>
  C8 at a snapshot whose refs are not in ascending order: the element \<^verbatim>\<open>2\<close> comes
  first in the mapping and first in the text.
\<close>

theorem C8_mapping_order_witness:
  "(\<exists>out. crewai_format example_repr unsorted_snapshot = Inr out
      \<and> last_lines 2 out = [''[2] link: Next'', ''[1] button: Login''])
   \<and> (\<exists>out. TextWebClient_format example_repr unsorted_snapshot = Inr out
      \<and> last_lines 2 out = [''[2] link: Next'', ''[1] button: Login''])"
proof -
  let ?els = "[(''2'', JObj [(''semantic'', JStr ''link''), (''text'', JStr ''Next'')]),
               (''1'', JObj [(''semantic'', JStr ''button''), (''text'', JStr ''Login'')])]
              :: (string \<times> unit json) list"
  let ?d = "[(''view'', JStr ''HOME''), (''elements'', JObj ?els),
             (''meta'', JObj [(''url'', JStr ''http://x''), (''title'', JStr ''X'')])]"
  let ?lines = "[''[2] link: Next'', ''[1] button: Login'']"
  have h1: "dict_get ?d ''elements'' (JObj []) = JObj ?els"
    by (simp add: dict_get_def)
  have h2: "dict_get ?d ''meta'' (JObj []) = JObj [(''url'', JStr ''http://x''), (''title'', JStr ''X'')]"
    by (simp add: dict_get_def)
  have h3: "map (crewai_ref_line example_repr) ?els = map Inr ?lines"
    by (simp add: crewai_ref_line_def dict_get_def)
  have h4: "\<forall>l \<in> set ?lines. CHR ''\<newline>'' \<notin> set l"
    by simp
  have len: "length ?els = 2"
    by simp
  note th = C8_element_lines_in_mapping_order [OF h1 h2 h3, unfolded len]
  from th obtain out where
    c: "crewai_format example_repr (JObj ?d) = Inr out"
    and ci: "(\<forall>l \<in> set ?lines. CHR ''\<newline>'' \<notin> set l) \<longrightarrow>
       length (last_lines 2 out) = 2
       \<and> (\<forall>k<2. crewai_ref_line example_repr (?els ! k) = Inr (last_lines 2 out ! k))"
    by (elim conjE exE)
  from th obtain out' where
    l: "TextWebClient_format example_repr (JObj ?d) = Inr out'"
    and li: "(\<forall>l \<in> set ?lines. CHR ''\<newline>'' \<notin> set l) \<longrightarrow>
       length (last_lines 2 out') = 2
       \<and> (\<forall>k<2. langchain_ref_line example_repr (?els ! k) = Inr (last_lines 2 out' ! k))"
    by (elim conjE exE)
  note cl = ci [THEN mp, OF h4, THEN conjunct1]
  note ck = ci [THEN mp, OF h4, THEN conjunct2]
  note ll = li [THEN mp, OF h4, THEN conjunct1]
  note lk = li [THEN mp, OF h4, THEN conjunct2]
  have c0: "last_lines 2 out ! 0 = ''[2] link: Next''"
    using ck [rule_format, of 0] by (simp add: crewai_ref_line_def dict_get_def)
  have c1: "last_lines 2 out ! 1 = ''[1] button: Login''"
    using ck [rule_format, of 1] by (simp add: crewai_ref_line_def dict_get_def)
  have l0: "last_lines 2 out' ! 0 = ''[2] link: Next''"
    using lk [rule_format, of 0] by (simp add: langchain_ref_line_def dict_get_def)
  have l1: "last_lines 2 out' ! 1 = ''[1] button: Login''"
    using lk [rule_format, of 1] by (simp add: langchain_ref_line_def dict_get_def)
  have "last_lines 2 out = ?lines"
    using cl c0 c1 by (auto simp: list_eq_iff_nth_eq less_2_cases_iff)
  moreover have "last_lines 2 out' = ?lines"
    using ll l0 l1 by (auto simp: list_eq_iff_nth_eq less_2_cases_iff)
  ultimately show ?thesis
    using c l by (simp add: unsorted_snapshot_def)
qed

text \<open>
  Claim C10. For a snapshot whose elements mapping is empty (or absent, which
  \<^verbatim>\<open>result.get("elements", {})\<close> makes empty), both adapters return a text, and the text
  ends with the line \<^verbatim>\<open>Interactive elements:\<close> and its newline, with nothing after.
\<close>

theorem C10_empty_elements_keep_header:
  assumes "dict_get d ''elements'' (JObj []) = JObj []"
    and "dict_get d ''meta'' (JObj []) = JObj m"
  shows "(\<exists>out. crewai_format repr (JObj d) = Inr out
            \<and> suffix ''\<newline>Interactive elements:\<newline>'' out)
       \<and> (\<exists>out. TextWebClient_format repr (JObj d) = Inr out
            \<and> suffix ''\<newline>Interactive elements:\<newline>'' out)"
proof -
  have mapE: "mapE (crewai_ref_line repr) [] = Inr []"
    by simp
  define tail where "tail = ''\<newline>Interactive elements:\<newline>''"
  define p where "p = ''URL: '' @ py_str repr (dict_get m ''url'' (JStr ''unknown''))
           @ ''\<newline>Title: '' @ py_str repr (dict_get m ''title'' (JStr ''unknown''))
           @ ''\<newline>\<newline>'' @ py_str repr (dict_get d ''view'' (JStr '''')) @ ''\<newline>''"
  define p' where "p' = ''URL: '' @ py_str repr (dict_get m ''url'' (JStr ''unknown''))
           @ ''\<newline>Title: '' @ py_str repr (dict_get m ''title'' (JStr ''unknown''))
           @ ''\<newline>Refs: '' @ py_str repr (dict_get m ''totalRefs'' (JInt 0))
           @ ''\<newline>\<newline>'' @ py_str repr (dict_get d ''view'' (JStr '''')) @ ''\<newline>''"
  have c: "crewai_format repr (JObj d) = Inr (p @ tail)"
    using crewai_format_JObj [OF assms mapE] by (simp add: p_def tail_def)
  have l: "TextWebClient_format repr (JObj d) = Inr (p' @ tail)"
    using langchain_format_JObj [OF assms mapE] by (simp add: p'_def tail_def)
  have "suffix tail (p @ tail)" and "suffix tail (p' @ tail)"
    by (rule suffixI, rule refl)+
  then show ?thesis
    unfolding tail_def [symmetric] using c l by blast
qed

text \<open>C10 at a snapshot with the empty mapping and at one without the key.\<close>

theorem C10_empty_elements_witness:
  "dict_get [(''view'', JStr ''HOME''), (''elements'', JObj []),
             (''meta'', JObj [(''url'', JStr ''http://x'')])] ''elements'' (JObj [])
     = (JObj [] :: unit json)
   \<and> (\<exists>out. crewai_format example_repr
                (JObj [(''view'', JStr ''HOME''), (''elements'', JObj []),
                       (''meta'', JObj [(''url'', JStr ''http://x'')])]) = Inr out
          \<and> suffix ''\<newline>Interactive elements:\<newline>'' out)
   \<and> (\<exists>out. TextWebClient_format example_repr
                (JObj [(''view'', JStr ''HOME''), (''elements'', JObj []),
                       (''meta'', JObj [(''url'', JStr ''http://x'')])]) = Inr out
          \<and> suffix ''\<newline>Interactive elements:\<newline>'' out)
   \<and> dict_get [(''view'', JStr ''HOME'')] ''elements'' (JObj []) = (JObj [] :: unit json)
   \<and> (\<exists>out. crewai_format example_repr (JObj [(''view'', JStr ''HOME'')]) = Inr out
          \<and> suffix ''\<newline>Interactive elements:\<newline>'' out)
   \<and> (\<exists>out. TextWebClient_format example_repr (JObj [(''view'', JStr ''HOME'')]) = Inr out
          \<and> suffix ''\<newline>Interactive elements:\<newline>'' out)"
proof -
  let ?d = "[(''view'', JStr ''HOME''), (''elements'', JObj []),
             (''meta'', JObj [(''url'', JStr ''http://x'')])] :: (string \<times> unit json) list"
  let ?d' = "[(''view'', JStr ''HOME'')] :: (string \<times> unit json) list"
  have h1: "dict_get ?d ''elements'' (JObj []) = JObj []"
    by (simp add: dict_get_def)
  have h2: "dict_get ?d ''meta'' (JObj []) = JObj [(''url'', JStr ''http://x'')]"
    by (simp add: dict_get_def)
  have h1': "dict_get ?d' ''elements'' (JObj []) = JObj []"
    by (simp add: dict_get_def)
  have h2': "dict_get ?d' ''meta'' (JObj []) = JObj []"
    by (simp add: dict_get_def)
  show ?thesis
    using h1 h1' C10_empty_elements_keep_header [OF h1 h2, of example_repr]
      C10_empty_elements_keep_header [OF h1' h2', of example_repr]
    by simp
qed

section \<open>The requests of the tools\<close>

text \<open>
  Claim C5. Every invocation of a tool, in either adapter, sends exactly one request,
  with the timeout 30: the snapshot tool a GET to \<^verbatim>\<open>/snapshot\<close> with no body, each of
  the other five a POST to the path of its action with a JSON object as body. A POST of
  \<^verbatim>\<open>_call\<close> with no data carries the empty object. The paths of the six actions are
  pairwise different, and only the snapshot action has the method GET.
\<close>

theorem C5_method_path_body_of_each_tool:
  "(\<exists>body. sent (snd (crewai_invoke rt m cinv w)) = sent w @
        [\<lparr>req_method = spec_method (crewai_action cinv),
          req_url = ''http://localhost:3000'' @ spec_path (crewai_action cinv),
          req_json = body, req_timeout = 30, req_session = cm_session m\<rparr>]
      \<and> (if crewai_action cinv = Snapshot then body = None
         else (\<exists>args. body = Some (JObj args))))
   \<and> (\<exists>body. sent (snd (langchain_invoke rt c linv w')) = sent w' @
        [\<lparr>req_method = spec_method (langchain_action linv),
          req_url = base_url c @ spec_path (langchain_action linv),
          req_json = body, req_timeout = 30, req_session = session c\<rparr>]
      \<and> (if langchain_action linv = Snapshot then body = None
         else (\<exists>args. body = Some (JObj args))))
   \<and> sent (snd (crewai_call rt m endpoint None ''POST'' b w)) = sent w @
        [\<lparr>req_method = POST, req_url = py_rstrip b ''/'' @ endpoint,
          req_json = Some (JObj []), req_timeout = 30, req_session = cm_session m\<rparr>]
   \<and> (spec_path a = spec_path a' \<longleftrightarrow> a = a')
   \<and> (spec_method a = GET \<longleftrightarrow> a = Snapshot)"
proof (intro conjI)
  show "\<exists>body. sent (snd (crewai_invoke rt m cinv w)) = sent w @
        [\<lparr>req_method = spec_method (crewai_action cinv),
          req_url = ''http://localhost:3000'' @ spec_path (crewai_action cinv),
          req_json = body, req_timeout = 30, req_session = cm_session m\<rparr>]
      \<and> (if crewai_action cinv = Snapshot then body = None
         else (\<exists>args. body = Some (JObj args)))"
    by (cases cinv) (simp_all add: crewai_invoke_sent del: crewai_invoke.simps)
  show "\<exists>body. sent (snd (langchain_invoke rt c linv w')) = sent w' @
        [\<lparr>req_method = spec_method (langchain_action linv),
          req_url = base_url c @ spec_path (langchain_action linv),
          req_json = body, req_timeout = 30, req_session = session c\<rparr>]
      \<and> (if langchain_action linv = Snapshot then body = None
         else (\<exists>args. body = Some (JObj args)))"
    by (cases linv) (simp_all add: langchain_invoke_sent del: langchain_invoke.simps)
  show "sent (snd (crewai_call rt m endpoint None ''POST'' b w)) = sent w @
        [\<lparr>req_method = POST, req_url = py_rstrip b ''/'' @ endpoint,
          req_json = Some (JObj []), req_timeout = 30, req_session = cm_session m\<rparr>]"
    by (simp add: crewai_call_post or_empty_def)
  show "spec_path a = spec_path a' \<longleftrightarrow> a = a'"
    by (cases a; cases a') simp_all
  show "spec_method a = GET \<longleftrightarrow> a = Snapshot"
    by (cases a) simp_all
qed

text \<open>
  Claim C6, as the code has it. The scroll tool of the LangChain adapter takes a
  direction and an optional amount, and posts both to \<^verbatim>\<open>/scroll\<close>, the amount being 1
  when the caller leaves it out. The scroll tool of the CrewAI adapter takes a direction
  only (\<^verbatim>\<open>ScrollSchema\<close> has no other field) and posts the direction alone.
\<close>

theorem C6_scroll_bodies:
  "sent (snd (langchain_invoke rt c (LScroll direction None) w)) = sent w @
      [\<lparr>req_method = POST, req_url = base_url c @ ''/scroll'',
        req_json = Some (JObj [(''direction'', JStr direction), (''amount'', JInt 1)]),
        req_timeout = 30, req_session = session c\<rparr>]
   \<and> sent (snd (langchain_invoke rt c (LScroll direction (Some n)) w)) = sent w @
      [\<lparr>req_method = POST, req_url = base_url c @ ''/scroll'',
        req_json = Some (JObj [(''direction'', JStr direction), (''amount'', JInt n)]),
        req_timeout = 30, req_session = session c\<rparr>]
   \<and> sent (snd (crewai_invoke rt m (CScroll direction) w')) = sent w' @
      [\<lparr>req_method = POST, req_url = ''http://localhost:3000/scroll'',
        req_json = Some (JObj [(''direction'', JStr direction)]),
        req_timeout = 30, req_session = cm_session m\<rparr>]"
  by (simp add: langchain_invoke_sent crewai_invoke_sent
      del: langchain_invoke.simps crewai_invoke.simps)

text \<open>
  Claim C6 as stated fails for the CrewAI adapter: the body its scroll tool posts has
  the direction and no amount.
\<close>

theorem C6_crewai_scroll_counterexample:
  "map req_json (sent (snd (crewai_invoke (example_runtime (Response 200 example_body))
       example_module (CScroll ''down'') loaded_world)))
     = [Some (JObj [(''direction'', JStr ''down'')])]"
  by (simp add: crewai_invoke_sent del: crewai_invoke.simps)

text \<open>
  Claim C7, as the code has it. A LangChain client, made by \<^verbatim>\<open>TextWebClient\<close> or by
  \<^verbatim>\<open>get_textweb_tools\<close>, sends every request to the base URL given at construction,
  \<^verbatim>\<open>http://localhost:3000\<close> when none is given, with trailing slashes removed, followed
  by the path of the action; nothing else enters the URL. The tools of the CrewAI adapter
  send every request to \<^verbatim>\<open>http://localhost:3000\<close> followed by the path: their
  constructors and \<^verbatim>\<open>_run\<close> methods take no base URL.
\<close>

theorem C7_request_urls:
  "req_url (last (sent (snd (langchain_invoke rt (fst (TextWebClient_init None w0)) linv w))))
     = ''http://localhost:3000'' @ spec_path (langchain_action linv)
   \<and> req_url (last (sent (snd (langchain_invoke rt (fst (TextWebClient_init (Some b) w0)) linv w))))
     = py_rstrip b ''/'' @ spec_path (langchain_action linv)
   \<and> req_url (last (sent (snd (langchain_invoke rt (fst (get_textweb_tools None w0)) linv w))))
     = ''http://localhost:3000'' @ spec_path (langchain_action linv)
   \<and> req_url (last (sent (snd (langchain_invoke rt (fst (get_textweb_tools (Some b) w0)) linv w))))
     = py_rstrip b ''/'' @ spec_path (langchain_action linv)
   \<and> req_url (last (sent (snd (crewai_invoke rt m cinv w'))))
     = ''http://localhost:3000'' @ spec_path (crewai_action cinv)"
  by (simp add: langchain_invoke_sent crewai_invoke_sent TextWebClient_init_eq
      get_textweb_tools_eq py_rstrip_def
      del: langchain_invoke.simps crewai_invoke.simps)

text \<open>
  Claim C7 as stated fails for the CrewAI adapter, which has no base URL to set: in the
  process where a LangChain client made for \<^verbatim>\<open>http://10.0.0.5:8080/\<close> sends its request
  there, the CrewAI navigate tool sends its request to \<^verbatim>\<open>http://localhost:3000\<close>.
\<close>

theorem C7_crewai_base_url_counterexample:
  "map req_url (sent (snd (crewai_invoke (example_runtime (Response 200 example_body))
       example_module (CNavigate ''https://example.com'') loaded_world)))
     = [''http://localhost:3000/navigate'']
   \<and> map req_url (sent (snd (langchain_invoke (example_runtime (Response 200 example_body))
       (fst (get_textweb_tools (Some ''http://10.0.0.5:8080/'') loaded_world))
       (LNavigate ''https://example.com'')
       (snd (get_textweb_tools (Some ''http://10.0.0.5:8080/'') loaded_world)))))
     = [''http://10.0.0.5:8080/navigate'']"
  by (simp add: langchain_invoke_sent crewai_invoke_sent get_textweb_tools_eq py_rstrip_def
      del: langchain_invoke.simps crewai_invoke.simps)

text \<open>
  Claim C9, as the code has it. Every request of a LangChain client goes through the
  session the client made at its construction; no invocation makes a session, and a
  client constructed later has a different session. Every request of every CrewAI tool
  goes through the one session of the module, \<^verbatim>\<open>_session\<close>, which all tools of the
  process share.
\<close>

theorem C9_sessions_of_requests:
  "map req_session (sent (snd (langchain_invoke rt c linv w)))
     = map req_session (sent w) @ [session c]
   \<and> next_session (snd (langchain_invoke rt c linv w)) = next_session w
   \<and> (next_session (snd (TextWebClient_init arg w0)) \<le> next_session w1 \<longrightarrow>
        session (fst (TextWebClient_init arg' w1)) \<noteq> session (fst (TextWebClient_init arg w0)))
   \<and> map req_session (sent (snd (crewai_invoke rt m cinv w')))
     = map req_session (sent w') @ [cm_session m]
   \<and> next_session (snd (crewai_invoke rt m cinv w')) = next_session w'"
  by (simp add: langchain_invoke_sent crewai_invoke_sent langchain_invoke_next_session
      crewai_invoke_next_session TextWebClient_init_eq
      del: langchain_invoke.simps crewai_invoke.simps)

text \<open>
  C9 in a process where one client navigates and clicks: both requests go through
  its session, 0, and a client made after these calls has another session.
\<close>

theorem C9_sessions_witness:
  "next_session (snd (TextWebClient_init None fresh_world))
     \<le> next_session (snd (langchain_invoke (example_runtime (Response 200 example_body))
          example_client (LClick 1)
          (snd (langchain_invoke (example_runtime (Response 200 example_body))
             example_client (LNavigate ''http://x'') client_world))))
   \<and> session (fst (TextWebClient_init None
         (snd (langchain_invoke (example_runtime (Response 200 example_body))
            example_client (LClick 1)
            (snd (langchain_invoke (example_runtime (Response 200 example_body))
               example_client (LNavigate ''http://x'') client_world))))))
       \<noteq> session (fst (TextWebClient_init None fresh_world))
   \<and> map req_session (sent (snd (langchain_invoke (example_runtime (Response 200 example_body))
          example_client (LClick 1)
          (snd (langchain_invoke (example_runtime (Response 200 example_body))
             example_client (LNavigate ''http://x'') client_world)))))
       = [0, 0]"
proof -
  let ?rt = "example_runtime (Response 200 example_body)"
  let ?w1 = "snd (langchain_invoke ?rt example_client (LNavigate ''http://x'') client_world)"
  let ?w2 = "snd (langchain_invoke ?rt example_client (LClick 1) ?w1)"
  note th1 = C9_sessions_of_requests
    [where rt = ?rt and c = example_client and linv = "LNavigate ''http://x''"
       and w = client_world and arg = None and ?w0.0 = fresh_world and ?w1.0 = ?w2
       and arg' = None and m = example_module and cinv = CSnapshot and w' = loaded_world]
  note th2 = C9_sessions_of_requests
    [where rt = ?rt and c = example_client and linv = "LClick 1"
       and w = ?w1 and arg = None and ?w0.0 = fresh_world and ?w1.0 = ?w2
       and arg' = None and m = example_module and cinv = CSnapshot and w' = loaded_world]
  have le: "next_session (snd (TextWebClient_init None fresh_world)) \<le> next_session ?w2"
    using th1 th2 by (simp add: TextWebClient_init_eq fresh_world_def del: langchain_invoke.simps)
  have ne: "session (fst (TextWebClient_init None ?w2))
              \<noteq> session (fst (TextWebClient_init None fresh_world))"
    using th2 le by blast
  have log: "map req_session (sent ?w2) = [0, 0]"
    using th1 th2 by (simp del: langchain_invoke.simps)
  show ?thesis
    using le ne log by blast
qed

text \<open>
  Claim C9 as stated fails for the CrewAI adapter: the navigate tool and the click
  tool are different objects, and their requests go through the same session, the
  module's.
\<close>

theorem C9_crewai_shared_session_counterexample:
  "map req_session (sent (snd (crewai_invoke (example_runtime (Response 200 example_body))
       example_module (CClick 1)
       (snd (crewai_invoke (example_runtime (Response 200 example_body))
          example_module (CNavigate ''http://x'') loaded_world)))))
     = [cm_session example_module, cm_session example_module]"
  by (simp add: crewai_invoke_sent del: crewai_invoke.simps)

section \<open>Errors of a call\<close>

text \<open>
  Claim C4, as the code has it. Every tool invocation of either adapter makes one call
  of \<^verbatim>\<open>session.get\<close> or \<^verbatim>\<open>session.post\<close>, and its result is decided by what that one
  call gives back: the modules catch nothing and call nothing again. When the call
  raises and returns no response, its exception is the result: \<open>Timeout\<close> for a
  timeout, \<open>ConnectionError\<close> for a refused connection or a name that does not
  resolve, and whatever else the library raises, none of which is \<open>HTTPError\<close> or
  \<open>JSONDecodeError\<close>. When the call returns a response (the last one, where the library
  has followed redirects), a status from 400 to 599 fails with \<open>HTTPError\<close>, which
  carries the status and the body; any other status with a body that is not JSON fails
  with \<open>JSONDecodeError\<close>, which carries the body, and with a body whose integer is
  too long for the interpreter with \<open>ValueError\<close>; any other status with a body that
  decodes is accepted, whatever the status.
\<close>

theorem C4_errors_of_a_call:
  "(\<exists>req. sent (snd (crewai_invoke rt m cinv w)) = sent w @ [req]
       \<and> fst (crewai_invoke rt m cinv w) = crewai_respond rt (rt_session rt (sent w) req))
   \<and> (\<exists>req. sent (snd (langchain_invoke rt c linv w')) = sent w' @ [req]
       \<and> fst (langchain_invoke rt c linv w') =
           bindE (checked_json rt (rt_session rt (sent w') req))
             (TextWebClient_format (rt_repr rt)))
   \<and> crewai_respond rt (Failed f) = Inl (call_error f)
   \<and> bindE (checked_json rt (Failed f)) (TextWebClient_format (rt_repr rt)) = Inl (call_error f)
   \<and> call_error TimedOut = Timeout
   \<and> call_error ConnectionRefused = ConnectionError
   \<and> call_error DNSFailure = ConnectionError
   \<and> call_error f \<noteq> HTTPError n b
   \<and> call_error f \<noteq> JSONDecodeError b
   \<and> (400 \<le> st \<and> st < 600 \<longrightarrow>
        crewai_respond rt (Response st body) = Inl (HTTPError st body)
        \<and> bindE (checked_json rt (Response st body)) (TextWebClient_format (rt_repr rt))
            = Inl (HTTPError st body))
   \<and> (\<not> (400 \<le> st' \<and> st' < 600) \<and> rt_json rt body' = NotJSON \<longrightarrow>
        crewai_respond rt (Response st' body') = Inl (JSONDecodeError body')
        \<and> bindE (checked_json rt (Response st' body')) (TextWebClient_format (rt_repr rt))
            = Inl (JSONDecodeError body'))
   \<and> (\<not> (400 \<le> stv \<and> stv < 600) \<and> rt_json rt bodyv = IntTooLong \<longrightarrow>
        crewai_respond rt (Response stv bodyv) = Inl ValueError
        \<and> bindE (checked_json rt (Response stv bodyv)) (TextWebClient_format (rt_repr rt))
            = Inl ValueError)
   \<and> (\<not> (400 \<le> st'' \<and> st'' < 600) \<and> rt_json rt body'' = Decoded result \<longrightarrow>
        crewai_respond rt (Response st'' body'') = crewai_format (rt_repr rt) result
        \<and> bindE (checked_json rt (Response st'' body'')) (TextWebClient_format (rt_repr rt))
            = TextWebClient_format (rt_repr rt) result)"
proof (intro conjI impI)
  have "sent (snd (crewai_invoke rt m cinv w))
          = sent w @ [last (sent (snd (crewai_invoke rt m cinv w)))]"
    by (simp add: crewai_invoke_sent del: crewai_invoke.simps)
  then show "\<exists>req. sent (snd (crewai_invoke rt m cinv w)) = sent w @ [req]
       \<and> fst (crewai_invoke rt m cinv w) = crewai_respond rt (rt_session rt (sent w) req)"
    using crewai_invoke_fst [of rt m cinv w] by blast
next
  have "sent (snd (langchain_invoke rt c linv w'))
          = sent w' @ [last (sent (snd (langchain_invoke rt c linv w')))]"
    by (simp add: langchain_invoke_sent del: langchain_invoke.simps)
  then show "\<exists>req. sent (snd (langchain_invoke rt c linv w')) = sent w' @ [req]
       \<and> fst (langchain_invoke rt c linv w') =
           bindE (checked_json rt (rt_session rt (sent w') req))
             (TextWebClient_format (rt_repr rt))"
    using langchain_invoke_fst [of rt c linv w'] by blast
next
  show "crewai_respond rt (Failed f) = Inl (call_error f)"
    by (simp add: crewai_respond_def)
next
  show "bindE (checked_json rt (Failed f)) (TextWebClient_format (rt_repr rt))
          = Inl (call_error f)"
    by (simp add: checked_json_def)
next
  show "call_error TimedOut = Timeout" "call_error ConnectionRefused = ConnectionError"
    "call_error DNSFailure = ConnectionError"
    by simp_all
next
  show "call_error f \<noteq> HTTPError n b" "call_error f \<noteq> JSONDecodeError b"
    by (cases f; simp)+
next
  assume "400 \<le> st \<and> st < 600"
  then show "crewai_respond rt (Response st body) = Inl (HTTPError st body)"
    and "bindE (checked_json rt (Response st body)) (TextWebClient_format (rt_repr rt))
            = Inl (HTTPError st body)"
    by (simp_all add: crewai_respond_def checked_json_def raise_for_status_def)
next
  assume "\<not> (400 \<le> st' \<and> st' < 600) \<and> rt_json rt body' = NotJSON"
  then show "crewai_respond rt (Response st' body') = Inl (JSONDecodeError body')"
    and "bindE (checked_json rt (Response st' body')) (TextWebClient_format (rt_repr rt))
            = Inl (JSONDecodeError body')"
    by (auto simp: crewai_respond_def checked_json_def raise_for_status_def response_json_def)
next
  assume "\<not> (400 \<le> stv \<and> stv < 600) \<and> rt_json rt bodyv = IntTooLong"
  then show "crewai_respond rt (Response stv bodyv) = Inl ValueError"
    and "bindE (checked_json rt (Response stv bodyv)) (TextWebClient_format (rt_repr rt))
            = Inl ValueError"
    by (auto simp: crewai_respond_def checked_json_def raise_for_status_def response_json_def)
next
  assume "\<not> (400 \<le> st'' \<and> st'' < 600) \<and> rt_json rt body'' = Decoded result"
  then show "crewai_respond rt (Response st'' body'') = crewai_format (rt_repr rt) result"
    and "bindE (checked_json rt (Response st'' body'')) (TextWebClient_format (rt_repr rt))
            = TextWebClient_format (rt_repr rt) result"
    by (auto simp: crewai_respond_def checked_json_def raise_for_status_def response_json_def)
qed

text \<open>
  C4 at a timeout, at the status 500 with the body \<^verbatim>\<open>Internal Server Error\<close>, at the
  status 200 with a body that is not JSON, at the status 200 with a body that is one
  integer of 4301 digits, and at the status 200 with the example body.
\<close>

theorem C4_errors_witness:
  "(400::nat) \<le> 500 \<and> (500::nat) < 600
   \<and> crewai_respond (example_runtime (Failed TimedOut)) (Failed TimedOut) = Inl Timeout
   \<and> crewai_respond (example_runtime (Failed TimedOut)) (Response 500 ''Internal Server Error'')
       = Inl (HTTPError 500 ''Internal Server Error'')
   \<and> bindE (checked_json (example_runtime (Failed TimedOut)) (Response 500 ''Internal Server Error''))
        (TextWebClient_format example_repr) = Inl (HTTPError 500 ''Internal Server Error'')
   \<and> \<not> ((400::nat) \<le> 200 \<and> (200::nat) < 600)
   \<and> rt_json (example_runtime (Failed TimedOut)) ''<html>'' = NotJSON
   \<and> crewai_respond (example_runtime (Failed TimedOut)) (Response 200 ''<html>'')
       = Inl (JSONDecodeError ''<html>'')
   \<and> bindE (checked_json (example_runtime (Failed TimedOut)) (Response 200 ''<html>''))
        (TextWebClient_format example_repr) = Inl (JSONDecodeError ''<html>'')
   \<and> rt_json (example_runtime (Failed TimedOut)) long_integer_body = IntTooLong
   \<and> crewai_respond (example_runtime (Failed TimedOut)) (Response 200 long_integer_body)
       = Inl ValueError
   \<and> bindE (checked_json (example_runtime (Failed TimedOut)) (Response 200 long_integer_body))
        (TextWebClient_format example_repr) = Inl ValueError
   \<and> rt_json (example_runtime (Failed TimedOut)) example_body = Decoded example_snapshot
   \<and> crewai_respond (example_runtime (Failed TimedOut)) (Response 200 example_body)
       = crewai_format example_repr example_snapshot
   \<and> fst (crewai_invoke (example_runtime (Failed TimedOut)) example_module
             (CNavigate ''http://x'') loaded_world) = Inl Timeout
   \<and> fst (langchain_invoke (example_runtime (Failed TimedOut)) example_client
             (LNavigate ''http://x'') client_world) = Inl Timeout"
proof -
  let ?rt = "example_runtime (Failed TimedOut)"
  have rt: "rt_session ?rt = constant_call (Failed TimedOut)" "rt_json ?rt = example_json"
    "rt_repr ?rt = example_repr"
    by (simp_all add: example_runtime_def)
  have none: "rt_json ?rt ''<html>'' = NotJSON"
    by (simp add: rt example_json_def example_body_def long_integer_body_def)
  have long: "rt_json ?rt long_integer_body = IntTooLong"
    by (simp add: rt example_json_def example_body_def long_integer_body_def)
  have some: "rt_json ?rt example_body = Decoded example_snapshot"
    by (simp add: rt example_json_def)
  note th = C4_errors_of_a_call
    [where rt = ?rt and m = example_module and cinv = "CNavigate ''http://x''"
       and w = loaded_world and c = example_client and linv = "LNavigate ''http://x''"
       and w' = client_world and f = TimedOut and st = 500
       and body = "''Internal Server Error''"
       and st' = 200 and body' = "''<html>''" and stv = 200 and bodyv = long_integer_body
       and st'' = 200 and body'' = example_body and result = example_snapshot]
  show ?thesis
    using th none long some by (auto simp: rt constant_call_def)
qed

text \<open>
  Claim C4 as stated fails at a status that is not 2xx and not an error code: a
  response with the status 300 and the example body is accepted by both adapters, and
  the navigate tool returns the formatted text.
\<close>

theorem C4_status_300_counterexample:
  "fst (crewai_invoke (example_runtime (Response 300 example_body)) example_module
          (CNavigate ''http://x'') loaded_world)
     = Inr ''URL: http://x\<newline>Title: X\<newline>\<newline>HOME\<newline>\<newline>Interactive elements:\<newline>[1] button: Login''
   \<and> fst (langchain_invoke (example_runtime (Response 300 example_body)) example_client
          (LNavigate ''http://x'') client_world)
     = Inr ''URL: http://x\<newline>Title: X\<newline>Refs: 1\<newline>\<newline>HOME\<newline>\<newline>Interactive elements:\<newline>[1] button: Login''"
proof -
  let ?rt = "example_runtime (Response 300 example_body)"
  have rt: "rt_session ?rt = constant_call (Response 300 example_body)" "rt_json ?rt = example_json"
    "rt_repr ?rt = example_repr"
    by (simp_all add: example_runtime_def)
  have c: "crewai_respond ?rt (Response 300 example_body)
             = crewai_format example_repr example_snapshot"
    by (simp add: crewai_respond_def raise_for_status_def response_json_def rt example_json_def)
  have l: "bindE (checked_json ?rt (Response 300 example_body)) (TextWebClient_format example_repr)
             = TextWebClient_format example_repr example_snapshot"
    by (simp add: checked_json_def raise_for_status_def response_json_def rt example_json_def)
  have fc: "crewai_format example_repr example_snapshot =
     Inr ''URL: http://x\<newline>Title: X\<newline>\<newline>HOME\<newline>\<newline>Interactive elements:\<newline>[1] button: Login''"
    by (simp add: example_snapshot_def crewai_format_def crewai_ref_line_def dict_get_def)
  have fl: "TextWebClient_format example_repr example_snapshot =
     Inr ''URL: http://x\<newline>Title: X\<newline>Refs: 1\<newline>\<newline>HOME\<newline>\<newline>Interactive elements:\<newline>[1] button: Login''"
    by (simp add: example_snapshot_def TextWebClient_format_def langchain_ref_line_def
        dict_get_def int_str_def nat_digits.simps digit_char_def)
  show ?thesis
    using c l fc fl
    by (simp add: crewai_invoke_fst langchain_invoke_fst rt constant_call_def
        del: crewai_invoke.simps langchain_invoke.simps)
qed


section \<open>The two adapters on the same response\<close>

text \<open>
  Claim C1, as the code has it. When the calls of the navigate tools of the two
  adapters give back the same outcome, the tools fail together with the same error or
  return together. Where they return, the outcome is a response whose body decodes to
  an object, and with its metadata (the empty object when absent) the text of the CrewAI
  tool is the URL line, the title line, an empty line and the rest, and the text of the
  LangChain tool is the same URL line, the same title line, then the line \<^verbatim>\<open>Refs:\<close>
  with the \<^verbatim>\<open>totalRefs\<close> of the metadata, \<^verbatim>\<open>0\<close> when it has none, then the empty line
  and the same rest. So the two texts are never equal.
\<close>

theorem C1_navigate_texts_differ_by_refs_line:
  assumes "rt_session rt (sent w)
             \<lparr>req_method = POST, req_url = ''http://localhost:3000/navigate'',
              req_json = Some (JObj [(''url'', JStr url)]), req_timeout = 30,
              req_session = cm_session m\<rparr> = out"
    and "rt_session rt (sent w')
             \<lparr>req_method = POST, req_url = base_url c @ ''/navigate'',
              req_json = Some (JObj [(''url'', JStr url)]), req_timeout = 30,
              req_session = session c\<rparr> = out"
  shows "(\<forall>e. fst (crewai_invoke rt m (CNavigate url) w) = Inl e
            \<longleftrightarrow> fst (langchain_invoke rt c (LNavigate url) w') = Inl e)
       \<and> (\<forall>a. fst (crewai_invoke rt m (CNavigate url) w) = Inr a \<longrightarrow>
            (\<exists>st body d meta rest.
               out = Response st body
               \<and> rt_json rt body = Decoded (JObj d)
               \<and> dict_get d ''meta'' (JObj []) = JObj meta
               \<and> a = ''URL: ''
                     @ (case map_of meta ''url'' of None \<Rightarrow> ''unknown''
                        | Some v \<Rightarrow> py_str (rt_repr rt) v)
                     @ ''\<newline>Title: ''
                     @ (case map_of meta ''title'' of None \<Rightarrow> ''unknown''
                        | Some v \<Rightarrow> py_str (rt_repr rt) v)
                     @ ''\<newline>\<newline>'' @ rest
               \<and> fst (langchain_invoke rt c (LNavigate url) w') =
                   Inr (''URL: ''
                        @ (case map_of meta ''url'' of None \<Rightarrow> ''unknown''
                           | Some v \<Rightarrow> py_str (rt_repr rt) v)
                        @ ''\<newline>Title: ''
                        @ (case map_of meta ''title'' of None \<Rightarrow> ''unknown''
                           | Some v \<Rightarrow> py_str (rt_repr rt) v)
                        @ ''\<newline>Refs: ''
                        @ (case map_of meta ''totalRefs'' of None \<Rightarrow> ''0''
                           | Some v \<Rightarrow> py_str (rt_repr rt) v)
                        @ ''\<newline>\<newline>'' @ rest))
            \<and> fst (langchain_invoke rt c (LNavigate url) w') \<noteq> Inr a)"
proof -
  let ?fmt = "TextWebClient_format (rt_repr rt)"
  have c: "fst (crewai_invoke rt m (CNavigate url) w) = crewai_respond rt out"
    using assms(1)
    by (simp add: crewai_invoke_fst crewai_invoke_sent del: crewai_invoke.simps)
  have l: "fst (langchain_invoke rt c (LNavigate url) w') = bindE (checked_json rt out) ?fmt"
    using assms(2)
    by (simp add: langchain_invoke_fst langchain_invoke_sent del: langchain_invoke.simps)
  have same: "crewai_respond rt out = Inl e \<longleftrightarrow> bindE (checked_json rt out) ?fmt = Inl e" for e
    by (rule respond_same_error)
  have differ: "(\<exists>st body d meta rest.
               out = Response st body
               \<and> rt_json rt body = Decoded (JObj d)
               \<and> dict_get d ''meta'' (JObj []) = JObj meta
               \<and> a = ''URL: ''
                     @ (case map_of meta ''url'' of None \<Rightarrow> ''unknown''
                        | Some v \<Rightarrow> py_str (rt_repr rt) v)
                     @ ''\<newline>Title: ''
                     @ (case map_of meta ''title'' of None \<Rightarrow> ''unknown''
                        | Some v \<Rightarrow> py_str (rt_repr rt) v)
                     @ ''\<newline>\<newline>'' @ rest
               \<and> bindE (checked_json rt out) ?fmt =
                   Inr (''URL: ''
                        @ (case map_of meta ''url'' of None \<Rightarrow> ''unknown''
                           | Some v \<Rightarrow> py_str (rt_repr rt) v)
                        @ ''\<newline>Title: ''
                        @ (case map_of meta ''title'' of None \<Rightarrow> ''unknown''
                           | Some v \<Rightarrow> py_str (rt_repr rt) v)
                        @ ''\<newline>Refs: ''
                        @ (case map_of meta ''totalRefs'' of None \<Rightarrow> ''0''
                           | Some v \<Rightarrow> py_str (rt_repr rt) v)
                        @ ''\<newline>\<newline>'' @ rest))
            \<and> bindE (checked_json rt out) ?fmt \<noteq> Inr a"
    if a: "crewai_respond rt out = Inr a" for a
  proof -
    from a obtain st body result where
      out: "out = Response st body"
      and dec: "rt_json rt body = Decoded result"
      and r: "crewai_format (rt_repr rt) result = Inr a"
      and b: "bindE (checked_json rt out) ?fmt = ?fmt result"
      by (rule respond_Inr_format)
    from r obtain d meta rest where
      d: "result = JObj d"
      and meta: "dict_get d ''meta'' (JObj []) = JObj meta"
      and a_eq: "a = ''URL: ''
                     @ (case map_of meta ''url'' of None \<Rightarrow> ''unknown''
                        | Some v \<Rightarrow> py_str (rt_repr rt) v)
                     @ ''\<newline>Title: ''
                     @ (case map_of meta ''title'' of None \<Rightarrow> ''unknown''
                        | Some v \<Rightarrow> py_str (rt_repr rt) v)
                     @ ''\<newline>\<newline>'' @ rest"
      and l_eq: "?fmt result =
                   Inr (''URL: ''
                        @ (case map_of meta ''url'' of None \<Rightarrow> ''unknown''
                           | Some v \<Rightarrow> py_str (rt_repr rt) v)
                        @ ''\<newline>Title: ''
                        @ (case map_of meta ''title'' of None \<Rightarrow> ''unknown''
                           | Some v \<Rightarrow> py_str (rt_repr rt) v)
                        @ ''\<newline>Refs: ''
                        @ (case map_of meta ''totalRefs'' of None \<Rightarrow> ''0''
                           | Some v \<Rightarrow> py_str (rt_repr rt) v)
                        @ ''\<newline>\<newline>'' @ rest)"
      by (rule format_refs_line)
    have "length a \<noteq> length (''URL: ''
                        @ (case map_of meta ''url'' of None \<Rightarrow> ''unknown''
                           | Some v \<Rightarrow> py_str (rt_repr rt) v)
                        @ ''\<newline>Title: ''
                        @ (case map_of meta ''title'' of None \<Rightarrow> ''unknown''
                           | Some v \<Rightarrow> py_str (rt_repr rt) v)
                        @ ''\<newline>Refs: ''
                        @ (case map_of meta ''totalRefs'' of None \<Rightarrow> ''0''
                           | Some v \<Rightarrow> py_str (rt_repr rt) v)
                        @ ''\<newline>\<newline>'' @ rest)"
      by (subst a_eq) simp
    then have ne: "?fmt result \<noteq> Inr a"
      unfolding l_eq by auto
    have dec': "rt_json rt body = Decoded (JObj d)"
      using dec d by simp
    show ?thesis
      unfolding b using out dec' meta a_eq l_eq ne by blast
  qed
  show ?thesis
    unfolding c l using same differ by blast
qed

text \<open>
  C1 where the library gives both navigate calls the status 200 and the example body:
  the CrewAI text, and the LangChain text with the line \<^verbatim>\<open>Refs: 1\<close>.
\<close>

theorem C1_navigate_texts_witness:
  "rt_session (example_runtime (Response 200 example_body)) (sent loaded_world)
       \<lparr>req_method = POST, req_url = ''http://localhost:3000/navigate'',
        req_json = Some (JObj [(''url'', JStr ''http://x'')]), req_timeout = 30,
        req_session = cm_session example_module\<rparr> = Response 200 example_body
   \<and> rt_session (example_runtime (Response 200 example_body)) (sent client_world)
       \<lparr>req_method = POST, req_url = base_url example_client @ ''/navigate'',
        req_json = Some (JObj [(''url'', JStr ''http://x'')]), req_timeout = 30,
        req_session = session example_client\<rparr> = Response 200 example_body
   \<and> fst (crewai_invoke (example_runtime (Response 200 example_body)) example_module
          (CNavigate ''http://x'') loaded_world)
       = Inr ''URL: http://x\<newline>Title: X\<newline>\<newline>HOME\<newline>\<newline>Interactive elements:\<newline>[1] button: Login''
   \<and> fst (langchain_invoke (example_runtime (Response 200 example_body)) example_client
          (LNavigate ''http://x'') client_world)
       = Inr ''URL: http://x\<newline>Title: X\<newline>Refs: 1\<newline>\<newline>HOME\<newline>\<newline>Interactive elements:\<newline>[1] button: Login''
   \<and> fst (langchain_invoke (example_runtime (Response 200 example_body)) example_client
          (LNavigate ''http://x'') client_world)
       \<noteq> Inr ''URL: http://x\<newline>Title: X\<newline>\<newline>HOME\<newline>\<newline>Interactive elements:\<newline>[1] button: Login''"
proof -
  let ?rt = "example_runtime (Response 200 example_body)"
  let ?a = "''URL: http://x\<newline>Title: X\<newline>\<newline>HOME\<newline>\<newline>Interactive elements:\<newline>[1] button: Login''"
  let ?l = "fst (langchain_invoke ?rt example_client (LNavigate ''http://x'') client_world)"
  have rt: "rt_session ?rt = constant_call (Response 200 example_body)"
    "rt_json ?rt = example_json" "rt_repr ?rt = example_repr"
    by (simp_all add: example_runtime_def)
  have h1: "rt_session ?rt (sent loaded_world)
       \<lparr>req_method = POST, req_url = ''http://localhost:3000/navigate'',
        req_json = Some (JObj [(''url'', JStr ''http://x'')]), req_timeout = 30,
        req_session = cm_session example_module\<rparr> = Response 200 example_body"
    by (simp only: rt constant_call_def)
  have h2: "rt_session ?rt (sent client_world)
       \<lparr>req_method = POST, req_url = base_url example_client @ ''/navigate'',
        req_json = Some (JObj [(''url'', JStr ''http://x'')]), req_timeout = 30,
        req_session = session example_client\<rparr> = Response 200 example_body"
    by (simp only: rt constant_call_def)
  note th = C1_navigate_texts_differ_by_refs_line [OF h1 h2]
  have c: "fst (crewai_invoke ?rt example_module (CNavigate ''http://x'') loaded_world) = Inr ?a"
    by (simp add: crewai_invoke_fst rt constant_call_def crewai_respond_def raise_for_status_def
        response_json_def example_json_def example_snapshot_def crewai_format_def
        crewai_ref_line_def dict_get_def del: crewai_invoke.simps)
  from th c obtain st body d meta rest where
    out: "Response 200 example_body = Response st body"
    and dec: "rt_json ?rt body = Decoded (JObj d)"
    and meta: "dict_get d ''meta'' (JObj []) = JObj meta"
    and a: "?a = ''URL: ''
                 @ (case map_of meta ''url'' of None \<Rightarrow> ''unknown''
                    | Some v \<Rightarrow> py_str (rt_repr ?rt) v)
                 @ ''\<newline>Title: ''
                 @ (case map_of meta ''title'' of None \<Rightarrow> ''unknown''
                    | Some v \<Rightarrow> py_str (rt_repr ?rt) v)
                 @ ''\<newline>\<newline>'' @ rest"
    and l: "?l = Inr (''URL: ''
                 @ (case map_of meta ''url'' of None \<Rightarrow> ''unknown''
                    | Some v \<Rightarrow> py_str (rt_repr ?rt) v)
                 @ ''\<newline>Title: ''
                 @ (case map_of meta ''title'' of None \<Rightarrow> ''unknown''
                    | Some v \<Rightarrow> py_str (rt_repr ?rt) v)
                 @ ''\<newline>Refs: ''
                 @ (case map_of meta ''totalRefs'' of None \<Rightarrow> ''0''
                    | Some v \<Rightarrow> py_str (rt_repr ?rt) v)
                 @ ''\<newline>\<newline>'' @ rest)"
    and ne: "?l \<noteq> Inr ?a"
    by blast
  have d: "JObj d = (example_snapshot :: unit json)"
    using out dec by (simp add: rt example_json_def)
  have meta_eq: "meta = [(''url'', JStr ''http://x''), (''title'', JStr ''X''),
                         (''totalRefs'', JInt 1)]"
    using d meta by (auto simp: example_snapshot_def dict_get_def)
  have rest: "rest = ''HOME\<newline>\<newline>Interactive elements:\<newline>[1] button: Login''"
    using a by (simp add: meta_eq)
  have "?l = Inr ''URL: http://x\<newline>Title: X\<newline>Refs: 1\<newline>\<newline>HOME\<newline>\<newline>Interactive elements:\<newline>[1] button: Login''"
    unfolding l by (simp add: meta_eq rest int_str_def nat_digits.simps digit_char_def)
  then show ?thesis
    using h1 h2 c ne by blast
qed

text \<open>
  Claim C1 as stated fails: on the same response, the status 200 with the example
  body, the navigate tools of the two adapters return different texts.
\<close>

theorem C1_navigate_counterexample:
  "fst (crewai_invoke (example_runtime (Response 200 example_body)) example_module
          (CNavigate ''http://x'') loaded_world)
     \<noteq> fst (langchain_invoke (example_runtime (Response 200 example_body)) example_client
          (LNavigate ''http://x'') client_world)"
proof -
  let ?rt = "example_runtime (Response 200 example_body)"
  have rt: "rt_session ?rt = constant_call (Response 200 example_body)" "rt_json ?rt = example_json"
    "rt_repr ?rt = example_repr"
    by (simp_all add: example_runtime_def)
  have c: "fst (crewai_invoke ?rt example_module (CNavigate ''http://x'') loaded_world)
     = Inr ''URL: http://x\<newline>Title: X\<newline>\<newline>HOME\<newline>\<newline>Interactive elements:\<newline>[1] button: Login''"
    by (simp add: crewai_invoke_fst rt constant_call_def crewai_respond_def raise_for_status_def
        response_json_def example_json_def example_snapshot_def crewai_format_def
        crewai_ref_line_def dict_get_def del: crewai_invoke.simps)
  have l: "fst (langchain_invoke ?rt example_client (LNavigate ''http://x'') client_world)
     = Inr ''URL: http://x\<newline>Title: X\<newline>Refs: 1\<newline>\<newline>HOME\<newline>\<newline>Interactive elements:\<newline>[1] button: Login''"
    by (simp add: langchain_invoke_fst rt constant_call_def checked_json_def raise_for_status_def
        response_json_def example_json_def example_snapshot_def TextWebClient_format_def
        langchain_ref_line_def dict_get_def int_str_def nat_digits.simps digit_char_def
        del: langchain_invoke.simps)
  show ?thesis
    unfolding c l by simp
qed

end
